theory Spec2Isabelle
  imports Main
begin

section \<open>Kinds\<close>

text \<open>
  \<open>Constants::kind_t\<close> is one C++ enumeration shared by expression nodes and type nodes
  (so \<open>CONSTANT\<close> is both the kind of a literal and the \<open>const\<close> prefix of a type, and a
  type kind can be compared with \<open>EF\<close>). The header declaring it is not among the sources;
  the enumerators used by \<open>typechecker.cpp\<close> are modelled as pairwise distinct codes.
  The enumerators of the mathematical library functions, of the dynamic-template
  constructs, of the timed I/O graph operators and of the probabilistic queries other than
  \<open>SIMULATE\<close> and \<open>SIMULATEREACH\<close> are left out; no node of those kinds is an input of the model.
\<close>

datatype kind_t = Kind nat

named_theorems kind_defs

definition PLUS :: kind_t where PLUS_def [kind_defs]: "PLUS = Kind 0"
definition MINUS :: kind_t where MINUS_def [kind_defs]: "MINUS = Kind 1"
definition MULT :: kind_t where MULT_def [kind_defs]: "MULT = Kind 2"
definition DIV :: kind_t where DIV_def [kind_defs]: "DIV = Kind 3"
definition MOD :: kind_t where MOD_def [kind_defs]: "MOD = Kind 4"
definition BIT_AND :: kind_t where BIT_AND_def [kind_defs]: "BIT_AND = Kind 5"
definition BIT_OR :: kind_t where BIT_OR_def [kind_defs]: "BIT_OR = Kind 6"
definition BIT_XOR :: kind_t where BIT_XOR_def [kind_defs]: "BIT_XOR = Kind 7"
definition BIT_LSHIFT :: kind_t where BIT_LSHIFT_def [kind_defs]: "BIT_LSHIFT = Kind 8"
definition BIT_RSHIFT :: kind_t where BIT_RSHIFT_def [kind_defs]: "BIT_RSHIFT = Kind 9"
definition AND :: kind_t where AND_def [kind_defs]: "AND = Kind 10"
definition OR :: kind_t where OR_def [kind_defs]: "OR = Kind 11"
definition XOR :: kind_t where XOR_def [kind_defs]: "XOR = Kind 12"
definition MIN_kind :: kind_t where MIN_kind_def [kind_defs]: "MIN_kind = Kind 13"
definition MAX_kind :: kind_t where MAX_kind_def [kind_defs]: "MAX_kind = Kind 14"
definition RATE :: kind_t where RATE_def [kind_defs]: "RATE = Kind 15"
definition FRACTION :: kind_t where FRACTION_def [kind_defs]: "FRACTION = Kind 16"
definition LT :: kind_t where LT_def [kind_defs]: "LT = Kind 17"
definition LE :: kind_t where LE_def [kind_defs]: "LE = Kind 18"
definition EQ :: kind_t where EQ_def [kind_defs]: "EQ = Kind 19"
definition NEQ :: kind_t where NEQ_def [kind_defs]: "NEQ = Kind 20"
definition GE :: kind_t where GE_def [kind_defs]: "GE = Kind 21"
definition GT :: kind_t where GT_def [kind_defs]: "GT = Kind 22"
definition NOT :: kind_t where NOT_def [kind_defs]: "NOT = Kind 23"
definition UNARY_MINUS :: kind_t where UNARY_MINUS_def [kind_defs]: "UNARY_MINUS = Kind 24"
definition ASSIGN :: kind_t where ASSIGN_def [kind_defs]: "ASSIGN = Kind 25"
definition ASSPLUS :: kind_t where ASSPLUS_def [kind_defs]: "ASSPLUS = Kind 26"
definition ASSMINUS :: kind_t where ASSMINUS_def [kind_defs]: "ASSMINUS = Kind 27"
definition ASSDIV :: kind_t where ASSDIV_def [kind_defs]: "ASSDIV = Kind 28"
definition ASSMOD :: kind_t where ASSMOD_def [kind_defs]: "ASSMOD = Kind 29"
definition ASSMULT :: kind_t where ASSMULT_def [kind_defs]: "ASSMULT = Kind 30"
definition ASSAND :: kind_t where ASSAND_def [kind_defs]: "ASSAND = Kind 31"
definition ASSOR :: kind_t where ASSOR_def [kind_defs]: "ASSOR = Kind 32"
definition ASSXOR :: kind_t where ASSXOR_def [kind_defs]: "ASSXOR = Kind 33"
definition ASSLSHIFT :: kind_t where ASSLSHIFT_def [kind_defs]: "ASSLSHIFT = Kind 34"
definition ASSRSHIFT :: kind_t where ASSRSHIFT_def [kind_defs]: "ASSRSHIFT = Kind 35"
definition FORALL :: kind_t where FORALL_def [kind_defs]: "FORALL = Kind 36"
definition EXISTS :: kind_t where EXISTS_def [kind_defs]: "EXISTS = Kind 37"
definition SUM_kind :: kind_t where SUM_kind_def [kind_defs]: "SUM_kind = Kind 38"
definition POSTINCREMENT :: kind_t where POSTINCREMENT_def [kind_defs]: "POSTINCREMENT = Kind 39"
definition PREINCREMENT :: kind_t where PREINCREMENT_def [kind_defs]: "PREINCREMENT = Kind 40"
definition POSTDECREMENT :: kind_t where POSTDECREMENT_def [kind_defs]: "POSTDECREMENT = Kind 41"
definition PREDECREMENT :: kind_t where PREDECREMENT_def [kind_defs]: "PREDECREMENT = Kind 42"
definition INLINEIF :: kind_t where INLINEIF_def [kind_defs]: "INLINEIF = Kind 43"
definition COMMA :: kind_t where COMMA_def [kind_defs]: "COMMA = Kind 44"
definition FUNCALL :: kind_t where FUNCALL_def [kind_defs]: "FUNCALL = Kind 45"
definition ARRAY :: kind_t where ARRAY_def [kind_defs]: "ARRAY = Kind 46"
definition IDENTIFIER :: kind_t where IDENTIFIER_def [kind_defs]: "IDENTIFIER = Kind 47"
definition CONSTANT :: kind_t where CONSTANT_def [kind_defs]: "CONSTANT = Kind 48"
definition DOT :: kind_t where DOT_def [kind_defs]: "DOT = Kind 49"
definition LIST :: kind_t where LIST_def [kind_defs]: "LIST = Kind 50"
definition EF :: kind_t where EF_def [kind_defs]: "EF = Kind 51"
definition EG :: kind_t where EG_def [kind_defs]: "EG = Kind 52"
definition AF :: kind_t where AF_def [kind_defs]: "AF = Kind 53"
definition AG :: kind_t where AG_def [kind_defs]: "AG = Kind 54"
definition LEADSTO :: kind_t where LEADSTO_def [kind_defs]: "LEADSTO = Kind 55"
definition SIMULATE :: kind_t where SIMULATE_def [kind_defs]: "SIMULATE = Kind 56"
definition SIMULATEREACH :: kind_t where SIMULATEREACH_def [kind_defs]: "SIMULATEREACH = Kind 57"
definition EXIT :: kind_t where EXIT_def [kind_defs]: "EXIT = Kind 58"
definition UNKNOWN :: kind_t where UNKNOWN_def [kind_defs]: "UNKNOWN = Kind 59"
definition VOID_TYPE :: kind_t where VOID_TYPE_def [kind_defs]: "VOID_TYPE = Kind 60"
definition CLOCK :: kind_t where CLOCK_def [kind_defs]: "CLOCK = Kind 61"
definition INT_kind :: kind_t where INT_kind_def [kind_defs]: "INT_kind = Kind 62"
definition DOUBLE :: kind_t where DOUBLE_def [kind_defs]: "DOUBLE = Kind 63"
definition BOOL :: kind_t where BOOL_def [kind_defs]: "BOOL = Kind 64"
definition SCALAR :: kind_t where SCALAR_def [kind_defs]: "SCALAR = Kind 65"
definition LOCATION :: kind_t where LOCATION_def [kind_defs]: "LOCATION = Kind 66"
definition CHANNEL :: kind_t where CHANNEL_def [kind_defs]: "CHANNEL = Kind 67"
definition COST :: kind_t where COST_def [kind_defs]: "COST = Kind 68"
definition INVARIANT :: kind_t where INVARIANT_def [kind_defs]: "INVARIANT = Kind 69"
definition INVARIANT_WR :: kind_t where INVARIANT_WR_def [kind_defs]: "INVARIANT_WR = Kind 70"
definition GUARD :: kind_t where GUARD_def [kind_defs]: "GUARD = Kind 71"
definition DIFF :: kind_t where DIFF_def [kind_defs]: "DIFF = Kind 72"
definition CONSTRAINT :: kind_t where CONSTRAINT_def [kind_defs]: "CONSTRAINT = Kind 73"
definition FORMULA :: kind_t where FORMULA_def [kind_defs]: "FORMULA = Kind 74"
definition RECORD :: kind_t where RECORD_def [kind_defs]: "RECORD = Kind 75"
definition PROCESS :: kind_t where PROCESS_def [kind_defs]: "PROCESS = Kind 76"
definition PROCESSVAR :: kind_t where PROCESSVAR_def [kind_defs]: "PROCESSVAR = Kind 77"
definition FUNCTION :: kind_t where FUNCTION_def [kind_defs]: "FUNCTION = Kind 78"
definition RANGE :: kind_t where RANGE_def [kind_defs]: "RANGE = Kind 79"
definition REF :: kind_t where REF_def [kind_defs]: "REF = Kind 80"
definition LABEL :: kind_t where LABEL_def [kind_defs]: "LABEL = Kind 81"
definition DOUBLEINVGUARD :: kind_t where DOUBLEINVGUARD_def [kind_defs]: "DOUBLEINVGUARD = Kind 82"
definition URGENT :: kind_t where URGENT_def [kind_defs]: "URGENT = Kind 83"
definition BROADCAST :: kind_t where BROADCAST_def [kind_defs]: "BROADCAST = Kind 84"
definition COMMITTED :: kind_t where COMMITTED_def [kind_defs]: "COMMITTED = Kind 85"
definition HYBRID :: kind_t where HYBRID_def [kind_defs]: "HYBRID = Kind 86"
definition SYSTEM_META :: kind_t where SYSTEM_META_def [kind_defs]: "SYSTEM_META = Kind 87"

section \<open>Types\<close>

text \<open>
  Modelled from the spec: \<open>type_t\<close> (\<open>utap/type.h\<close> is not among the sources). A type is
  "an algebraic tree with a root kind drawn from a closed set and zero or more subtypes";
  it "carries a size, optional record labels, and an optional range (lower, upper) as two
  expressions". Every subtype has a label (empty when unused). The range endpoints are
  expressions that the functions below only compare with \<open>expression_t::equal\<close>, which is
  structural equality; they are values of the parameter \<open>'r\<close>.
\<close>

datatype 'r type_t =
  Type (type_getKind: kind_t) (type_children: "(string \<times> 'r type_t) list")
       (type_range: "('r \<times> 'r) option")

definition createPrimitive :: "kind_t \<Rightarrow> 'r type_t" where
  "createPrimitive k = Type k [] None"

definition createPrefix :: "kind_t \<Rightarrow> 'r type_t \<Rightarrow> 'r type_t" where
  "createPrefix k t = Type k [([], t)] None"

definition createLabel :: "string \<Rightarrow> 'r type_t \<Rightarrow> 'r type_t" where
  "createLabel l t = Type LABEL [(l, t)] None"

definition createRange :: "'r type_t \<Rightarrow> 'r \<Rightarrow> 'r \<Rightarrow> 'r type_t" where
  "createRange t lower upper = Type RANGE [([], t)] (Some (lower, upper))"

definition createRecord :: "(string \<times> 'r type_t) list \<Rightarrow> 'r type_t" where
  "createRecord fields = Type RECORD fields None"

definition createArray :: "'r type_t \<Rightarrow> 'r type_t \<Rightarrow> 'r type_t" where
  "createArray sub sz = Type ARRAY [([], sub), ([], sz)] None"


text \<open>The default-constructed \<open>type_t()\<close>, whose kind reads as \<open>UNKNOWN\<close>.\<close>

definition type_null :: "'r type_t" where
  "type_null = Type UNKNOWN [] None"

definition type_unknown :: "'r type_t \<Rightarrow> bool" where
  "type_unknown t = (type_getKind t = UNKNOWN)"

definition type_size :: "'r type_t \<Rightarrow> nat" where
  "type_size t = length (type_children t)"

text \<open>
  \<open>type_t::get(i)\<close> (also written \<open>type[i]\<close>) and \<open>getLabel(i)\<close>. Past the last subtype the
  model answers with the null type and the empty label.
\<close>

definition type_get :: "'r type_t \<Rightarrow> nat \<Rightarrow> 'r type_t" where
  "type_get t i = (if i < type_size t then snd (type_children t ! i) else type_null)"

definition type_getLabel :: "'r type_t \<Rightarrow> nat \<Rightarrow> string" where
  "type_getLabel t i = (if i < type_size t then fst (type_children t ! i) else [])"

text \<open>
  Modelled from the spec: "prefixes (urgent, broadcast, committed, hybrid, const,
  system-meta, ref)", which "wrap a subtype and are transparent to most predicates". A
  range is an integer or a scalar with bounds and a label names a type, so both are looked
  through as well ("for integers, equivalent iff both non-range or both range", "labelled
  scalar-set identity").
\<close>

definition isPrefix :: "kind_t \<Rightarrow> bool" where
  "isPrefix k = (k = URGENT \<or> k = BROADCAST \<or> k = COMMITTED \<or> k = HYBRID
                 \<or> k = CONSTANT \<or> k = SYSTEM_META)"

definition transparent :: "kind_t \<Rightarrow> bool" where
  "transparent k = (isPrefix k \<or> k = RANGE \<or> k = REF \<or> k = LABEL)"

fun type_is :: "kind_t \<Rightarrow> 'r type_t \<Rightarrow> bool" where
  "type_is kind (Type k [] r) = (k = kind)"
| "type_is kind (Type k ((l, t) # ts) r) = (k = kind \<or> (transparent k \<and> type_is kind t))"

text \<open>The type below all prefixes, ranges and labels: where a record keeps its fields.\<close>

fun type_strip :: "'r type_t \<Rightarrow> 'r type_t" where
  "type_strip (Type k [] r) = Type k [] r"
| "type_strip (Type k ((l, t) # ts) r) =
     (if transparent k then type_strip t else Type k ((l, t) # ts) r)"

fun type_getRange :: "'r type_t \<Rightarrow> ('r \<times> 'r) option" where
  "type_getRange (Type k [] r) = (if k = RANGE then r else None)"
| "type_getRange (Type k ((l, t) # ts) r) =
     (if k = RANGE then r else if transparent k then type_getRange t else None)"

definition type_isInteger :: "'r type_t \<Rightarrow> bool" where
  "type_isInteger t = type_is INT_kind t"

definition type_isBoolean :: "'r type_t \<Rightarrow> bool" where
  "type_isBoolean t = type_is BOOL t"

definition type_isIntegral :: "'r type_t \<Rightarrow> bool" where
  "type_isIntegral t = (type_is INT_kind t \<or> type_is BOOL t)"

definition type_isClock :: "'r type_t \<Rightarrow> bool" where
  "type_isClock t = type_is CLOCK t"

definition type_isDouble :: "'r type_t \<Rightarrow> bool" where
  "type_isDouble t = type_is DOUBLE t"

definition type_isDiff :: "'r type_t \<Rightarrow> bool" where
  "type_isDiff t = type_is DIFF t"

definition type_isVoid :: "'r type_t \<Rightarrow> bool" where
  "type_isVoid t = type_is VOID_TYPE t"

definition type_isScalar :: "'r type_t \<Rightarrow> bool" where
  "type_isScalar t = type_is SCALAR t"

definition type_isChannel :: "'r type_t \<Rightarrow> bool" where
  "type_isChannel t = type_is CHANNEL t"

definition type_isRecord :: "'r type_t \<Rightarrow> bool" where
  "type_isRecord t = type_is RECORD t"

definition type_isArray :: "'r type_t \<Rightarrow> bool" where
  "type_isArray t = type_is ARRAY t"

definition type_isProcess :: "'r type_t \<Rightarrow> bool" where
  "type_isProcess t = type_is PROCESS t"

definition type_isFunction :: "'r type_t \<Rightarrow> bool" where
  "type_isFunction t = type_is FUNCTION t"

text \<open>
  The syntactic kinds nest: an integral expression is a valid invariant ("a valid
  invariant is either an invariant expression or an integer expression", says the comment
  on \<open>isInvariantWR\<close>), an invariant is a valid guard, a guard a valid constraint and a
  constraint a valid formula.
\<close>

definition type_isInvariant :: "'r type_t \<Rightarrow> bool" where
  "type_isInvariant t = (type_is INVARIANT t \<or> type_isIntegral t)"

definition type_isGuard :: "'r type_t \<Rightarrow> bool" where
  "type_isGuard t = (type_is GUARD t \<or> type_isInvariant t)"

definition type_isConstraint :: "'r type_t \<Rightarrow> bool" where
  "type_isConstraint t = (type_is CONSTRAINT t \<or> type_isGuard t)"

definition type_isFormula :: "'r type_t \<Rightarrow> bool" where
  "type_isFormula t = (type_is FORMULA t \<or> type_isConstraint t)"

text \<open>
  Modelled from the spec: "modifiable lvalue: an expression denoting a storage location
  whose type is not const"; a type is constant when it carries the \<open>const\<close> prefix.
\<close>

definition type_isConstant :: "'r type_t \<Rightarrow> bool" where
  "type_isConstant t = type_is CONSTANT t"

definition type_isNonConstant :: "'r type_t \<Rightarrow> bool" where
  "type_isNonConstant t = (\<not> type_is CONSTANT t)"

text \<open>
  Record and array access. "In order to access the record labels we have to strip any
  prefixes and labels from the record type" (\<open>checkInitialiser\<close>). An array keeps its
  element type first and its size type second.
\<close>

definition type_getRecordSize :: "'r type_t \<Rightarrow> nat" where
  "type_getRecordSize t = type_size (type_strip t)"

definition type_getRecordLabel :: "'r type_t \<Rightarrow> nat \<Rightarrow> string" where
  "type_getRecordLabel t i = type_getLabel (type_strip t) i"

definition type_getSub :: "'r type_t \<Rightarrow> nat \<Rightarrow> 'r type_t" where
  "type_getSub t i = type_get (type_strip t) i"

definition type_getArraySize :: "'r type_t \<Rightarrow> 'r type_t" where
  "type_getArraySize t = type_get (type_strip t) 1"

fun index_of :: "string \<Rightarrow> string list \<Rightarrow> int" where
  "index_of l [] = - 1"
| "index_of l (x # xs) =
     (if x = l then 0 else (let r = index_of l xs in if r = - 1 then - 1 else r + 1))"

definition type_findIndexOf :: "'r type_t \<Rightarrow> string \<Rightarrow> int" where
  "type_findIndexOf t l = index_of l (map fst (type_children (type_strip t)))"

section \<open>Compatibility of types\<close>

text \<open>
  \<open>isAssignable\<close>: "values of this type can be assigned. This is the case for integers,
  booleans, clocks, cost, scalars and arrays and records of these." \<open>type[0]\<close> of a node
  without subtypes is not read by the source for well-formed arrays; the model answers
  \<open>False\<close> there.
\<close>

fun isAssignable :: "'r type_t \<Rightarrow> bool" where
  "isAssignable (Type k cs r) =
     (if k = INT_kind \<or> k = BOOL \<or> k = DOUBLE \<or> k = CLOCK \<or> k = COST \<or> k = SCALAR then True
      else if k = ARRAY then (case cs of [] \<Rightarrow> False | (l, t) # _ \<Rightarrow> isAssignable t)
      else if k = RECORD then list_all (\<lambda>c. isAssignable (snd c)) cs
      else (case cs of [] \<Rightarrow> False | (l, t) # _ \<Rightarrow> isAssignable t))"

text \<open>
  \<open>channelCapability\<close>: 0 for urgent channels, 1 for non-urgent broadcast channels, 2
  otherwise; \<open>None\<close> is the failed \<open>assert(type.isChannel())\<close>.
\<close>

definition channelCapability :: "'r type_t \<Rightarrow> int option" where
  "channelCapability t =
     (if \<not> type_isChannel t then None
      else if type_is URGENT t then Some 0
      else if type_is BROADCAST t then Some 1
      else Some 2)"

text \<open>
  \<open>isSameScalarType\<close>, as written: the first argument is stripped of \<open>REF\<close>, \<open>CONSTANT\<close>
  and \<open>SYSTEM_META\<close>, the second of \<open>EF\<close>, \<open>CONSTANT\<close> and \<open>SYSTEM_META\<close>. A prefix
  node always has its subtype; the model answers \<open>False\<close> for one without.
\<close>

fun isSameScalarType :: "'r type_t \<Rightarrow> 'r type_t \<Rightarrow> bool" where
  "isSameScalarType (Type k1 cs1 r1) (Type k2 cs2 r2) =
     (if k1 = REF \<or> k1 = CONSTANT \<or> k1 = SYSTEM_META then
        (case cs1 of [] \<Rightarrow> False | (l1, t1) # _ \<Rightarrow> isSameScalarType t1 (Type k2 cs2 r2))
      else if k2 = EF \<or> k2 = CONSTANT \<or> k2 = SYSTEM_META then
        (case cs2 of [] \<Rightarrow> False | (l2, t2) # _ \<Rightarrow> isSameScalarType (Type k1 cs1 r1) t2)
      else if k1 = LABEL \<and> k2 = LABEL then
        (case (cs1, cs2) of
           ((l1, t1) # _, (l2, t2) # _) \<Rightarrow> l1 = l2 \<and> isSameScalarType t1 t2
         | _ \<Rightarrow> False)
      else if k1 = SCALAR \<and> k2 = SCALAR then True
      else if k1 = RANGE \<and> k2 = RANGE then
        (case (cs1, cs2) of
           ((l1, t1) # _, (l2, t2) # _) \<Rightarrow>
              isSameScalarType t1 t2
              \<and> map_option fst r1 = map_option fst r2
              \<and> map_option snd r1 = map_option snd r2
         | _ \<Rightarrow> False)
      else False)"

lemma size_type_strip: "size (type_strip t) \<le> size t"
  by (induction t rule: type_strip.induct) auto

lemma size_nth_snd:
  "i < length cs \<Longrightarrow> size (snd (cs ! i)) < Suc (size_list (size_prod (\<lambda>x. 0) size) cs)"
proof (induction cs arbitrary: i)
  case Nil
  then show ?case by simp
next
  case (Cons c cs)
  show ?case
  proof (cases i)
    case 0
    then show ?thesis by (cases c) simp
  next
    case (Suc j)
    with Cons.prems have "j < length cs" by simp
    from Cons.IH [OF this] Suc show ?thesis by simp
  qed
qed

lemma size_type_get:
  "i < type_size t \<Longrightarrow> size (type_get t i) < size t"
  using size_nth_snd [of i "type_children t"]
  by (cases t) (simp add: type_get_def type_size_def)

lemma size_type_getSub:
  "i < type_getRecordSize t \<Longrightarrow> size (type_getSub t i) < size t"
  unfolding type_getRecordSize_def type_getSub_def
  using size_type_get [of i "type_strip t"] size_type_strip [of t] by simp

text \<open>
  \<open>TypeChecker::areEquivalent\<close>: "Returns true iff a and b are structurally equivalent.
  However, CONST, SYSTEM_META, and REF are ignored. Scalar sets are checked using named
  equivalence." The range of a type that has none reads as a pair of empty expressions.
  The element type of an array, \<open>getSub()\<close>, is its first subtype; an array type always
  has it, and the model answers \<open>False\<close> for one without.
\<close>

function areEquivalent :: "'r type_t \<Rightarrow> 'r type_t \<Rightarrow> bool" where
  "areEquivalent a b =
     (if type_isInteger a \<and> type_isInteger b then
        (\<not> type_is RANGE a \<or> \<not> type_is RANGE b
         \<or> (map_option fst (type_getRange a) = map_option fst (type_getRange b)
            \<and> map_option snd (type_getRange a) = map_option snd (type_getRange b)))
      else if type_isBoolean a \<and> type_isBoolean b then True
      else if type_isClock a \<and> type_isClock b then True
      else if type_isChannel a \<and> type_isChannel b then
        channelCapability a = channelCapability b
      else if type_isRecord a \<and> type_isRecord b then
        (type_getRecordSize a = type_getRecordSize b
         \<and> list_all (\<lambda>i. type_getRecordLabel a i = type_getRecordLabel b i
                          \<and> areEquivalent (type_getSub a i) (type_getSub b i))
                    [0 ..< type_getRecordSize a])
      else if type_isArray a \<and> type_isArray b then
        (if type_getRecordSize a = 0 then False
         else if type_isInteger (type_getArraySize a) \<and> type_isInteger (type_getArraySize b) then
           (if map_option fst (type_getRange (type_getArraySize a))
                 = map_option fst (type_getRange (type_getArraySize b))
               \<and> map_option snd (type_getRange (type_getArraySize a))
                 = map_option snd (type_getRange (type_getArraySize b))
            then areEquivalent (type_getSub a 0) (type_getSub b 0) else False)
         else if type_isScalar (type_getArraySize a) \<and> type_isScalar (type_getArraySize b) then
           (if isSameScalarType (type_getArraySize a) (type_getArraySize b)
            then areEquivalent (type_getSub a 0) (type_getSub b 0) else False)
         else False)
      else if type_isScalar a \<and> type_isScalar b then isSameScalarType a b
      else if type_isDouble a \<and> type_isDouble b then True
      else False)"
  by pat_completeness auto
termination
  by (relation "measure (\<lambda>(a, b). size a)") (auto simp: size_type_getSub)

declare areEquivalent.simps [simp del]

text \<open>
  \<open>areAssignmentCompatible(lvalue, rvalue, init)\<close>; \<open>init\<close> defaults to \<open>false\<close>.
\<close>

definition areAssignmentCompatible :: "'r type_t \<Rightarrow> 'r type_t \<Rightarrow> bool \<Rightarrow> bool" where
  "areAssignmentCompatible lvalue rvalue init =
     (if (if init then type_isClock lvalue \<and> type_isDouble rvalue
          else (type_isClock lvalue \<or> type_isDouble lvalue)
               \<and> (type_isIntegral rvalue \<or> type_isDouble rvalue \<or> type_isClock rvalue))
      then True
      else if type_isIntegral lvalue \<and> type_isIntegral rvalue then True
      else areEquivalent lvalue rvalue)"

definition areEqCompatible :: "'r type_t \<Rightarrow> 'r type_t \<Rightarrow> bool" where
  "areEqCompatible t1 t2 =
     (if type_isIntegral t1 \<and> type_isIntegral t2 then True
      else if type_is PROCESSVAR t1 \<and> type_is PROCESSVAR t2 then True
      else areEquivalent t1 t2)"

definition areInlineIfCompatible :: "'r type_t \<Rightarrow> 'r type_t \<Rightarrow> bool" where
  "areInlineIfCompatible t1 t2 =
     (if type_isIntegral t1 \<and> type_isIntegral t2 then True else areEquivalent t1 t2)"

section \<open>Expressions\<close>

text \<open>
  Modelled from the spec: \<open>expression_t\<close> and \<open>symbol_t\<close> (their sources are not part of
  the repository excerpt). An expression is "a kind tag from a closed set, an ordered
  sequence of child expressions, an optional attached symbol, an optional value, an
  optional position, and a type field assigned by the checker"; a symbol is "a named
  entity with an attached type". Positions are not modelled. \<open>EmptyExpr\<close> is the
  default-constructed \<open>expression_t()\<close>, for which \<open>empty()\<close> holds. The value of a constant
  is an \<open>int32_t\<close>; the checker only compares it with 0 and 1.
\<close>

datatype 'r symbol_t = NoSymbol | Symbol string "'r type_t"

fun symbol_getType :: "'r symbol_t \<Rightarrow> 'r type_t" where
  "symbol_getType NoSymbol = type_null"
| "symbol_getType (Symbol n t) = t"

datatype 'r expression_t =
    EmptyExpr
  | Expr kind_t "'r expression_t list" "'r type_t" int "'r symbol_t"

text \<open>
  The accessors read the node. The functions of the checker below never apply them to
  \<open>EmptyExpr\<close>: where the source would read an empty expression or a child past the last
  one (both fail an assertion of \<open>expression_t\<close>), they return \<open>None\<close>.
\<close>

fun getKind :: "'r expression_t \<Rightarrow> kind_t" where
  "getKind EmptyExpr = UNKNOWN"
| "getKind (Expr k cs t v s) = k"

fun subs :: "'r expression_t \<Rightarrow> 'r expression_t list" where
  "subs EmptyExpr = []"
| "subs (Expr k cs t v s) = cs"

fun getType :: "'r expression_t \<Rightarrow> 'r type_t" where
  "getType EmptyExpr = type_null"
| "getType (Expr k cs t v s) = t"

fun getValue :: "'r expression_t \<Rightarrow> int" where
  "getValue EmptyExpr = 0"
| "getValue (Expr k cs t v s) = v"

fun getSymbol :: "'r expression_t \<Rightarrow> 'r symbol_t" where
  "getSymbol EmptyExpr = NoSymbol"
| "getSymbol (Expr k cs t v s) = s"

fun setType :: "'r expression_t \<Rightarrow> 'r type_t \<Rightarrow> 'r expression_t" where
  "setType EmptyExpr t' = EmptyExpr"
| "setType (Expr k cs t v s) t' = Expr k cs t' v s"

definition getSize :: "'r expression_t \<Rightarrow> nat" where
  "getSize e = length (subs e)"

definition createConstant :: "int \<Rightarrow> 'r expression_t" where
  "createConstant v = Expr CONSTANT [] (createPrimitive INT_kind) v NoSymbol"

definition createBinary ::
  "kind_t \<Rightarrow> 'r expression_t \<Rightarrow> 'r expression_t \<Rightarrow> 'r type_t \<Rightarrow> 'r expression_t" where
  "createBinary k l r t = Expr k [l, r] t 0 NoSymbol"

definition createNary :: "kind_t \<Rightarrow> 'r expression_t list \<Rightarrow> 'r type_t \<Rightarrow> 'r expression_t" where
  "createNary k es t = Expr k es t 0 NoSymbol"

text \<open>The helper predicates at the head of \<open>typechecker.cpp\<close>.\<close>

definition isCost :: "'r expression_t \<Rightarrow> bool" where
  "isCost expr = type_is COST (getType expr)"

definition isVoid :: "'r expression_t \<Rightarrow> bool" where
  "isVoid expr = type_isVoid (getType expr)"

definition isDouble :: "'r expression_t \<Rightarrow> bool" where
  "isDouble expr = type_isDouble (getType expr)"

definition isInteger :: "'r expression_t \<Rightarrow> bool" where
  "isInteger expr = type_isInteger (getType expr)"

definition isBound :: "'r expression_t \<Rightarrow> bool" where
  "isBound expr = (type_isInteger (getType expr) \<or> type_isDouble (getType expr))"

definition isIntegral :: "'r expression_t \<Rightarrow> bool" where
  "isIntegral expr = type_isIntegral (getType expr)"

definition isClock :: "'r expression_t \<Rightarrow> bool" where
  "isClock expr = type_isClock (getType expr)"

definition isDiff :: "'r expression_t \<Rightarrow> bool" where
  "isDiff expr = type_isDiff (getType expr)"

definition isDoubleValue :: "'r expression_t \<Rightarrow> bool" where
  "isDoubleValue expr = (isDouble expr \<or> isClock expr \<or> isDiff expr)"

definition isNumber :: "'r expression_t \<Rightarrow> bool" where
  "isNumber expr = (isDoubleValue expr \<or> isIntegral expr)"

definition isConstantInteger :: "'r expression_t \<Rightarrow> bool" where
  "isConstantInteger expr = (getKind expr = CONSTANT \<and> isInteger expr)"

definition isInvariant :: "'r expression_t \<Rightarrow> bool" where
  "isInvariant expr = type_isInvariant (getType expr)"

definition isGuard :: "'r expression_t \<Rightarrow> bool" where
  "isGuard expr = type_isGuard (getType expr)"

definition isConstraint :: "'r expression_t \<Rightarrow> bool" where
  "isConstraint expr = type_isConstraint (getType expr)"

definition isFormula :: "'r expression_t \<Rightarrow> bool" where
  "isFormula expr = type_isFormula (getType expr)"

definition isInvariantWR :: "'r expression_t \<Rightarrow> bool" where
  "isInvariantWR expr = (isInvariant expr \<or> type_is INVARIANT_WR (getType expr))"

section \<open>Diagnostics and the services the checker consumes\<close>

text \<open>
  \<open>handleError\<close> and \<open>handleWarning\<close> append a message to the buffer of the system; the
  position they take from the expression is not modelled.
\<close>

datatype diagnostic = Error string | Warning string

definition handleError :: "string \<Rightarrow> diagnostic list \<Rightarrow> diagnostic list" where
  "handleError msg ds = ds @ [Error msg]"

definition handleWarning :: "string \<Rightarrow> diagnostic list \<Rightarrow> diagnostic list" where
  "handleWarning msg ds = ds @ [Warning msg]"

text \<open>
  What the checker reads from code outside \<open>typechecker.cpp\<close> is a parameter:
  \<open>expression_t::changesAnyVariable\<close>, \<open>expression_t::collectPossibleReads\<close>, the set
  filled by \<open>CompileTimeComputableValues\<close>, \<open>type_t::toString\<close> and the compile-time switch
  \<open>ENABLE_TIGA\<close>. \<open>checkType\<close> is the list of diagnostics that \<open>TypeChecker::checkType\<close>
  emits for the type of a quantified symbol. \<open>temp\<close> is the member \<open>temp\<close> of the checker,
  the template being visited: \<open>None\<close> when it is null, otherwise its flag \<open>dynamic\<close>.
\<close>

record 'r env =
  changesAnyVariable :: "'r expression_t \<Rightarrow> bool"
  collectPossibleReads :: "'r expression_t \<Rightarrow> 'r symbol_t list"
  compileTimeComputableValues :: "'r symbol_t list"
  checkType :: "'r type_t \<Rightarrow> diagnostic list"
  type_toString :: "'r type_t \<Rightarrow> string"
  ENABLE_TIGA :: bool
  temp :: "bool option"

definition isCompileTimeComputable :: "'r env \<Rightarrow> 'r expression_t \<Rightarrow> bool" where
  "isCompileTimeComputable env expr =
     list_all (\<lambda>i. \<not> (i = NoSymbol
                       \<or> (\<not> type_isFunction (symbol_getType i)
                          \<and> i \<notin> set (compileTimeComputableValues env))))
              (collectPossibleReads env expr)"

section \<open>Statements\<close>

text \<open>
  The statement classes of \<open>statement.cpp\<close>. \<open>SwitchStatement\<close>, \<open>CaseStatement\<close> and
  \<open>DefaultStatement\<close> derive from \<open>BlockStatement\<close> and override \<open>returns\<close>. The true branch
  of an \<open>IfStatement\<close> is never null (the constructor asserts it); the false branch may be.
\<close>

datatype 'r Statement =
    EmptyStatement
  | ExprStatement "'r expression_t"
  | AssertStatement "'r expression_t"
  | ForStatement "'r expression_t" "'r expression_t" "'r expression_t" "'r Statement"
  | IterationStatement "'r symbol_t" "'r symbol_t list" "'r Statement"
  | WhileStatement "'r expression_t" "'r Statement"
  | DoWhileStatement "'r Statement" "'r expression_t"
  | BlockStatement "'r symbol_t list" "'r Statement list"
  | SwitchStatement "'r symbol_t list" "'r expression_t" "'r Statement list"
  | CaseStatement "'r symbol_t list" "'r expression_t" "'r Statement list"
  | DefaultStatement "'r symbol_t list" "'r Statement list"
  | IfStatement "'r expression_t" "'r Statement" "'r Statement option"
  | BreakStatement
  | ContinueStatement
  | ReturnStatement "'r expression_t"

lemma size_last_Statement:
  "stats \<noteq> [] \<Longrightarrow> size (last stats) < Suc (n + size_list size stats)"
  by (induction stats) auto

function returns :: "'r Statement \<Rightarrow> bool" where
  "returns EmptyStatement = False"
| "returns (ExprStatement expr) = False"
| "returns (AssertStatement expr) = False"
| "returns (ForStatement init cond step stat) = False"
| "returns (IterationStatement symbol frame stat) = False"
| "returns (WhileStatement cond stat) = False"
| "returns (DoWhileStatement stat cond) = returns stat"
| "returns (BlockStatement frame stats) = (if stats \<noteq> [] then returns (last stats) else False)"
| "returns (SwitchStatement frame cond stats) = False"
| "returns (CaseStatement frame cond stats) = False"
| "returns (DefaultStatement frame stats) = False"
| "returns (IfStatement cond trueCase falseCase) =
     (if returns trueCase
      then (case falseCase of None \<Rightarrow> False | Some f \<Rightarrow> returns f)
      else False)"
| "returns BreakStatement = False"
| "returns ContinueStatement = False"
| "returns (ReturnStatement val) = True"
  by pat_completeness auto
termination
  by (relation "measure size") (auto simp: size_last_Statement)

section \<open>Lvalue analyses\<close>

text \<open>
  \<open>a && b\<close> on results that may fail: \<open>b\<close> is evaluated only when \<open>a\<close> is true.
\<close>

definition and_also :: "bool option \<Rightarrow> bool option \<Rightarrow> bool option" where
  "and_also a b = (case a of None \<Rightarrow> None | Some x \<Rightarrow> if x then b else Some False)"

lemma and_also_cong [fundef_cong]:
  "a = a' \<Longrightarrow> (a' = Some True \<Longrightarrow> b = b') \<Longrightarrow> and_also a b = and_also a' b'"
  by (auto simp: and_also_def split: option.splits)

lemma and_also_Some_True [simp]:
  "and_also a b = Some True \<longleftrightarrow> a = Some True \<and> b = Some True"
  by (auto simp: and_also_def split: option.splits)

text \<open>
  The shared case labels \<open>PREINCREMENT\<close>, \<open>PREDECREMENT\<close>, \<open>ASSIGN\<close>, \<open>ASSPLUS\<close>, ...,
  \<open>ASSRSHIFT\<close> of the three analyses.
\<close>

definition isAssignmentKind :: "kind_t \<Rightarrow> bool" where
  "isAssignmentKind k =
     (k = PREINCREMENT \<or> k = PREDECREMENT \<or> k = ASSIGN \<or> k = ASSPLUS \<or> k = ASSMINUS
      \<or> k = ASSDIV \<or> k = ASSMOD \<or> k = ASSMULT \<or> k = ASSAND \<or> k = ASSOR \<or> k = ASSXOR
      \<or> k = ASSLSHIFT \<or> k = ASSRSHIFT)"

text \<open>The case labels \<open>ASSMINUS\<close>, \<open>ASSDIV\<close>, ..., \<open>ASSRSHIFT\<close> of \<open>checkExpression\<close>.\<close>

definition isCompoundAssignment :: "kind_t \<Rightarrow> bool" where
  "isCompoundAssignment k =
     (k = ASSMINUS \<or> k = ASSDIV \<or> k = ASSMOD \<or> k = ASSMULT \<or> k = ASSAND \<or> k = ASSOR
      \<or> k = ASSXOR \<or> k = ASSLSHIFT \<or> k = ASSRSHIFT)"

fun isModifiableLValue :: "'r expression_t \<Rightarrow> bool option" where
  "isModifiableLValue EmptyExpr = None"
| "isModifiableLValue (Expr k cs t v s) =
     (if k = IDENTIFIER then Some (type_isNonConstant t)
      else if k = DOT then
        (case cs of
           [] \<Rightarrow> None
         | e0 # _ \<Rightarrow>
             if e0 = EmptyExpr then None
             else if type_isProcess (getType e0) then Some False
             else isModifiableLValue e0)
      else if k = ARRAY then
        (case cs of [] \<Rightarrow> None | e0 # _ \<Rightarrow> isModifiableLValue e0)
      else if isAssignmentKind k then Some True
      else if k = INLINEIF then
        (case cs of
           e0 # e1 # rest \<Rightarrow>
             and_also (isModifiableLValue e1)
               (case rest of
                  [] \<Rightarrow> None
                | e2 # _ \<Rightarrow>
                    and_also (isModifiableLValue e2)
                      (Some (areEquivalent (getType e1) (getType e2))))
         | _ \<Rightarrow> None)
      else if k = COMMA then
        (case cs of e0 # e1 # _ \<Rightarrow> isModifiableLValue e1 | _ \<Rightarrow> None)
      else Some False)"

fun isLValue :: "'r expression_t \<Rightarrow> bool option" where
  "isLValue EmptyExpr = None"
| "isLValue (Expr k cs t v s) =
     (if k = IDENTIFIER \<or> isAssignmentKind k then Some True
      else if k = DOT \<or> k = ARRAY then
        (case cs of [] \<Rightarrow> None | e0 # _ \<Rightarrow> isLValue e0)
      else if k = INLINEIF then
        (case cs of
           e0 # e1 # rest \<Rightarrow>
             and_also (isLValue e1)
               (case rest of
                  [] \<Rightarrow> None
                | e2 # _ \<Rightarrow>
                    and_also (isLValue e2)
                      (Some (areEquivalent (getType e1) (getType e2))))
         | _ \<Rightarrow> None)
      else if k = COMMA then
        (case cs of e0 # e1 # _ \<Rightarrow> isLValue e1 | _ \<Rightarrow> None)
      else Some False)"

fun isUniqueReference :: "'r env \<Rightarrow> 'r expression_t \<Rightarrow> bool option" where
  "isUniqueReference env EmptyExpr = None"
| "isUniqueReference env (Expr k cs t v s) =
     (if k = IDENTIFIER then Some True
      else if k = DOT then
        (case cs of [] \<Rightarrow> None | e0 # _ \<Rightarrow> isUniqueReference env e0)
      else if k = ARRAY then
        (case cs of
           [] \<Rightarrow> None
         | e0 # rest \<Rightarrow>
             and_also (isUniqueReference env e0)
               (case rest of
                  [] \<Rightarrow> None
                | e1 # _ \<Rightarrow> Some (isCompileTimeComputable env e1)))
      else if isAssignmentKind k then
        (case cs of [] \<Rightarrow> None | e0 # _ \<Rightarrow> isUniqueReference env e0)
      else if k = INLINEIF then Some False
      else if k = COMMA then
        (case cs of e0 # e1 # _ \<Rightarrow> isUniqueReference env e1 | _ \<Rightarrow> None)
      else Some False)"

section \<open>Checking expressions\<close>

text \<open>
  A case of the switch in \<open>checkExpression\<close> either leaves the switch with a value of the
  local variable \<open>type\<close> (still unknown when no rule matched) or returns from the function.
  Both carry the diagnostics buffer as the case left it.
\<close>

datatype 'r outcome = Break "'r type_t" "diagnostic list" | Return bool "diagnostic list"

text \<open>
  \<open>expr[0]\<close>, \<open>expr[1]\<close>, \<open>expr[2]\<close>: a case that reads its operands fails (\<open>None\<close>) on a node
  with fewer children or with an empty child among them.
\<close>

fun unary :: "'r expression_t list \<Rightarrow> ('r expression_t \<Rightarrow> 'a option) \<Rightarrow> 'a option" where
  "unary (e0 # es) f = (if e0 = EmptyExpr then None else f e0)"
| "unary [] f = None"

fun binary ::
  "'r expression_t list \<Rightarrow> ('r expression_t \<Rightarrow> 'r expression_t \<Rightarrow> 'a option) \<Rightarrow> 'a option" where
  "binary (e0 # e1 # es) f = (if e0 = EmptyExpr \<or> e1 = EmptyExpr then None else f e0 e1)"
| "binary es f = None"

fun ternary ::
  "'r expression_t list
     \<Rightarrow> ('r expression_t \<Rightarrow> 'r expression_t \<Rightarrow> 'r expression_t \<Rightarrow> 'a option) \<Rightarrow> 'a option" where
  "ternary (e0 # e1 # e2 # es) f =
     (if e0 = EmptyExpr \<or> e1 = EmptyExpr \<or> e2 = EmptyExpr then None else f e0 e1 e2)"
| "ternary es f = None"

subsection \<open>The rules that only compute a type\<close>

definition type_FRACTION :: "'r expression_t \<Rightarrow> 'r expression_t \<Rightarrow> 'r type_t" where
  "type_FRACTION e0 e1 =
     (if isIntegral e0 \<and> isIntegral e1 then createPrimitive FRACTION else type_null)"

definition type_PLUS :: "'r expression_t \<Rightarrow> 'r expression_t \<Rightarrow> 'r type_t" where
  "type_PLUS e0 e1 =
     (if isIntegral e0 \<and> isIntegral e1 then createPrimitive INT_kind
      else if (isInteger e0 \<and> isClock e1) \<or> (isClock e0 \<and> isInteger e1)
        then createPrimitive CLOCK
      else if (isDiff e0 \<and> isInteger e1) \<or> (isInteger e0 \<and> isDiff e1)
        then createPrimitive DIFF
      else if isNumber e0 \<and> isNumber e1 then createPrimitive DOUBLE
      else type_null)"

definition type_MINUS :: "'r expression_t \<Rightarrow> 'r expression_t \<Rightarrow> 'r type_t" where
  "type_MINUS e0 e1 =
     (if isIntegral e0 \<and> isIntegral e1 then createPrimitive INT_kind
      else if isClock e0 \<and> isInteger e1 then createPrimitive CLOCK
      else if (isDiff e0 \<and> isInteger e1) \<or> (isInteger e0 \<and> isDiff e1)
              \<or> (isClock e0 \<and> isClock e1)
        then createPrimitive DIFF
      else if isNumber e0 \<and> isNumber e1 then createPrimitive DOUBLE
      else type_null)"

definition type_AND :: "'r expression_t \<Rightarrow> 'r expression_t \<Rightarrow> 'r type_t" where
  "type_AND e0 e1 =
     (if isIntegral e0 \<and> isIntegral e1 then createPrimitive BOOL
      else if isInvariant e0 \<and> isInvariant e1 then createPrimitive INVARIANT
      else if isInvariantWR e0 \<and> isInvariantWR e1 then createPrimitive INVARIANT_WR
      else if isGuard e0 \<and> isGuard e1 then createPrimitive GUARD
      else if isConstraint e0 \<and> isConstraint e1 then createPrimitive CONSTRAINT
      else if isFormula e0 \<and> isFormula e1 then createPrimitive FORMULA
      else type_null)"

definition type_OR :: "'r expression_t \<Rightarrow> 'r expression_t \<Rightarrow> 'r type_t" where
  "type_OR e0 e1 =
     (if isIntegral e0 \<and> isIntegral e1 then createPrimitive BOOL
      else if isIntegral e0 \<and> isInvariant e1 then createPrimitive INVARIANT
      else if isInvariant e0 \<and> isIntegral e1 then createPrimitive INVARIANT
      else if isIntegral e0 \<and> isInvariantWR e1 then createPrimitive INVARIANT_WR
      else if isInvariantWR e0 \<and> isIntegral e1 then createPrimitive INVARIANT_WR
      else if isIntegral e0 \<and> isGuard e1 then createPrimitive GUARD
      else if isGuard e0 \<and> isIntegral e1 then createPrimitive GUARD
      else if isConstraint e0 \<and> isConstraint e1 then createPrimitive CONSTRAINT
      else type_null)"

definition type_XOR :: "'r expression_t \<Rightarrow> 'r expression_t \<Rightarrow> 'r type_t" where
  "type_XOR e0 e1 =
     (if isIntegral e0 \<and> isIntegral e1 then createPrimitive BOOL else type_null)"

definition type_EQ :: "'r expression_t \<Rightarrow> 'r expression_t \<Rightarrow> 'r type_t" where
  "type_EQ e0 e1 =
     (if (isClock e0 \<and> isClock e1) \<or> (isClock e0 \<and> isInteger e1)
         \<or> (isInteger e0 \<and> isClock e1) \<or> (isDiff e0 \<and> isInteger e1)
         \<or> (isInteger e0 \<and> isDiff e1)
        then createPrimitive GUARD
      else if areEqCompatible (getType e0) (getType e1) then createPrimitive BOOL
      else if (type_is RATE (getType e0) \<and> (isIntegral e1 \<or> isDoubleValue e1))
              \<or> ((isIntegral e0 \<or> isDoubleValue e0) \<and> type_is RATE (getType e1))
        then createPrimitive INVARIANT_WR
      else if isNumber e0 \<and> isNumber e1 then createPrimitive BOOL
      else type_null)"

definition type_NEQ :: "'r expression_t \<Rightarrow> 'r expression_t \<Rightarrow> 'r type_t" where
  "type_NEQ e0 e1 =
     (if areEqCompatible (getType e0) (getType e1) then createPrimitive BOOL
      else if (isClock e0 \<and> isClock e1) \<or> (isClock e0 \<and> isInteger e1)
              \<or> (isInteger e0 \<and> isClock e1) \<or> (isDiff e0 \<and> isInteger e1)
              \<or> (isInteger e0 \<and> isDiff e1)
        then createPrimitive CONSTRAINT
      else if isNumber e0 \<and> isNumber e1 then createPrimitive BOOL
      else type_null)"

text \<open>The shared case of \<open>GE\<close>, \<open>GT\<close>, \<open>LE\<close> and \<open>LT\<close>.\<close>

definition type_relational :: "'r expression_t \<Rightarrow> 'r expression_t \<Rightarrow> 'r type_t" where
  "type_relational e0 e1 =
     (if isIntegral e0 \<and> isIntegral e1 then createPrimitive BOOL
      else if (isClock e0 \<and> isClock e1) \<or> (isClock e0 \<and> isBound e1)
              \<or> (isClock e1 \<and> isBound e0) \<or> (isDiff e0 \<and> isBound e1)
              \<or> (isDiff e1 \<and> isBound e0)
        then createPrimitive INVARIANT
      else if (isClock e0 \<and> isInteger e1) \<or> (isInteger e0 \<and> isClock e1)
        then createPrimitive GUARD
      else if isNumber e0 \<and> isNumber e1 then createPrimitive BOOL
      else type_null)"

text \<open>The shared case of \<open>MULT\<close>, \<open>DIV\<close>, \<open>MIN\<close> and \<open>MAX\<close>.\<close>

definition type_MULT :: "'r expression_t \<Rightarrow> 'r expression_t \<Rightarrow> 'r type_t" where
  "type_MULT e0 e1 =
     (if isIntegral e0 \<and> isIntegral e1 then createPrimitive INT_kind
      else if isNumber e0 \<and> isNumber e1 then createPrimitive DOUBLE
      else type_null)"

text \<open>The shared case of \<open>MOD\<close> and the bit operators.\<close>

definition type_MOD :: "'r expression_t \<Rightarrow> 'r expression_t \<Rightarrow> 'r type_t" where
  "type_MOD e0 e1 =
     (if isIntegral e0 \<and> isIntegral e1 then createPrimitive INT_kind else type_null)"

definition type_NOT :: "'r expression_t \<Rightarrow> 'r type_t" where
  "type_NOT e0 =
     (if isIntegral e0 then createPrimitive BOOL
      else if isConstraint e0 then createPrimitive CONSTRAINT
      else type_null)"

definition type_UNARY_MINUS :: "'r expression_t \<Rightarrow> 'r type_t" where
  "type_UNARY_MINUS e0 =
     (if isIntegral e0 then createPrimitive INT_kind
      else if isNumber e0 then createPrimitive DOUBLE
      else type_null)"

definition type_RATE :: "'r expression_t \<Rightarrow> 'r type_t" where
  "type_RATE e0 = (if isCost e0 \<or> isClock e0 then createPrimitive RATE else type_null)"

text \<open>The shared case of \<open>AF\<close>, \<open>AG\<close>, \<open>EF\<close> and \<open>EG\<close>, and the case of \<open>LEADSTO\<close>.\<close>

definition type_path :: "'r expression_t \<Rightarrow> 'r type_t" where
  "type_path e0 = (if isFormula e0 then createPrimitive FORMULA else type_null)"

definition type_LEADSTO :: "'r expression_t \<Rightarrow> 'r expression_t \<Rightarrow> 'r type_t" where
  "type_LEADSTO e0 e1 =
     (if isFormula e0 \<and> isFormula e1 then createPrimitive FORMULA else type_null)"

subsection \<open>The rules that emit diagnostics\<close>

definition check_ASSIGN ::
  "'r expression_t \<Rightarrow> 'r expression_t \<Rightarrow> diagnostic list \<Rightarrow> 'r outcome option" where
  "check_ASSIGN e0 e1 ds =
     (if \<not> areAssignmentCompatible (getType e0) (getType e1) False
        then Some (Return False (handleError ''$Incompatible_types'' ds))
      else case isModifiableLValue e0 of
             None \<Rightarrow> None
           | Some lvalue \<Rightarrow>
               if \<not> lvalue
                 then Some (Return False (handleError ''$Left_hand_side_value_expected'' ds))
               else Some (Break (getType e0) ds))"

definition check_ASSPLUS ::
  "'r expression_t \<Rightarrow> 'r expression_t \<Rightarrow> diagnostic list \<Rightarrow> 'r outcome option" where
  "check_ASSPLUS e0 e1 ds =
     (if (\<not> isInteger e0 \<and> \<not> isCost e0) \<or> \<not> isIntegral e1
        then Some (Break (getType e0)
               (handleError
                  ''$Increment_operator_can_only_be_used_for_integers_and_cost_variables'' ds))
      else case isModifiableLValue e0 of
             None \<Rightarrow> None
           | Some lvalue \<Rightarrow>
               if \<not> lvalue
                 then Some (Break (getType e0)
                        (handleError ''$Left_hand_side_value_expected'' ds))
               else Some (Break (getType e0) ds))"

text \<open>The shared case of \<open>ASSMINUS\<close>, \<open>ASSDIV\<close>, ..., \<open>ASSRSHIFT\<close>.\<close>

definition check_ASSMINUS ::
  "'r expression_t \<Rightarrow> 'r expression_t \<Rightarrow> diagnostic list \<Rightarrow> 'r outcome option" where
  "check_ASSMINUS e0 e1 ds =
     (if \<not> isIntegral e0 \<or> \<not> isIntegral e1
        then Some (Return False
               (handleError ''$Non-integer_types_must_use_regular_assignment_operator'' ds))
      else case isModifiableLValue e0 of
             None \<Rightarrow> None
           | Some lvalue \<Rightarrow>
               if \<not> lvalue
                 then Some (Return False (handleError ''$Left_hand_side_value_expected'' ds))
               else Some (Break (getType e0) ds))"

text \<open>The shared case of the four increment and decrement operators.\<close>

definition check_INCREMENT :: "'r expression_t \<Rightarrow> diagnostic list \<Rightarrow> 'r outcome option" where
  "check_INCREMENT e0 ds =
     (case isModifiableLValue e0 of
        None \<Rightarrow> None
      | Some lvalue \<Rightarrow>
          if \<not> lvalue
            then Some (Return False (handleError ''$Left_hand_side_value_expected'' ds))
          else if \<not> isInteger e0
            then Some (Return False (handleError ''$Integer_expected'' ds))
          else Some (Break (createPrimitive INT_kind) ds))"

definition check_INLINEIF ::
  "'r expression_t \<Rightarrow> 'r expression_t \<Rightarrow> 'r expression_t \<Rightarrow> diagnostic list
     \<Rightarrow> 'r outcome option" where
  "check_INLINEIF e0 e1 e2 ds =
     (if \<not> isIntegral e0
        then Some (Return False
               (handleError ''$First_argument_of_inline_if_must_be_an_integer'' ds))
      else if \<not> areInlineIfCompatible (getType e1) (getType e2)
        then Some (Return False (handleError ''$Incompatible_arguments_to_inline_if'' ds))
      else Some (Break (getType e1) ds))"

text \<open>
  \<open>checkIgnoredValue\<close> "issues warnings for expressions, which do not change any
  variables".
\<close>

fun checkIgnoredValue ::
  "'r env \<Rightarrow> 'r expression_t \<Rightarrow> diagnostic list \<Rightarrow> diagnostic list option" where
  "checkIgnoredValue env EmptyExpr ds = None"
| "checkIgnoredValue env (Expr k cs t v s) ds =
     (if k \<noteq> EXIT \<and> \<not> changesAnyVariable env (Expr k cs t v s)
        then Some (handleWarning ''$Expression_does_not_have_any_effect'' ds)
      else if k = COMMA then
        (case cs of e0 # e1 # es \<Rightarrow> checkIgnoredValue env e1 ds | _ \<Rightarrow> None)
      else Some ds)"

definition check_COMMA ::
  "'r env \<Rightarrow> 'r expression_t \<Rightarrow> 'r expression_t \<Rightarrow> diagnostic list \<Rightarrow> 'r outcome option" where
  "check_COMMA env e0 e1 ds =
     (if \<not> isAssignable (getType e0) \<and> \<not> isVoid e0
        then Some (Return False (handleError ''$Incompatible_type_for_comma_expression'' ds))
      else if \<not> isAssignable (getType e1) \<and> \<not> isVoid e1
        then Some (Return False (handleError ''$Incompatible_type_for_comma_expression'' ds))
      else case checkIgnoredValue env e0 ds of
             None \<Rightarrow> None
           | Some ds' \<Rightarrow> Some (Break (getType e1) ds'))"

definition check_ARRAY ::
  "'r expression_t \<Rightarrow> 'r expression_t \<Rightarrow> diagnostic list \<Rightarrow> 'r outcome option" where
  "check_ARRAY e0 e1 ds =
     (let arg1 = getType e0; arg2 = getType e1 in
      if \<not> type_isArray arg1
        then Some (Return False (handleError ''$Array_expected'' ds))
      else if type_isInteger (type_getArraySize arg1) \<and> type_isIntegral arg2
        then Some (Break (type_getSub arg1 0) ds)
      else if type_isScalar (type_getArraySize arg1) \<and> type_isScalar arg2
        then (if \<not> isSameScalarType (type_getArraySize arg1) arg2
                then Some (Return False (handleError ''$Incompatible_type'' ds))
              else Some (Break (type_getSub arg1 0) ds))
      else Some (Break (type_getSub arg1 0) (handleError ''$Incompatible_type'' ds)))"

text \<open>
  The quantifiers. \<open>expr[0]\<close> is the bound symbol, \<open>expr[1]\<close> the body; a rule that does not
  match reports an error and leaves \<open>type\<close> unknown.
\<close>

definition side_effect_free ::
  "'r env \<Rightarrow> 'r expression_t \<Rightarrow> diagnostic list \<Rightarrow> diagnostic list" where
  "side_effect_free env e1 ds =
     (if changesAnyVariable env e1
        then handleError ''$Expression_must_be_side-effect_free'' ds else ds)"

definition check_FORALL ::
  "'r env \<Rightarrow> 'r expression_t \<Rightarrow> 'r expression_t \<Rightarrow> diagnostic list \<Rightarrow> 'r outcome option" where
  "check_FORALL env e0 e1 ds =
     (let ds1 = ds @ checkType env (symbol_getType (getSymbol e0)) in
      if isIntegral e1 then Some (Break (createPrimitive BOOL) (side_effect_free env e1 ds1))
      else if isInvariant e1
        then Some (Break (createPrimitive INVARIANT) (side_effect_free env e1 ds1))
      else if isInvariantWR e1
        then Some (Break (createPrimitive INVARIANT_WR) (side_effect_free env e1 ds1))
      else if isGuard e1 then Some (Break (createPrimitive GUARD) (side_effect_free env e1 ds1))
      else if isConstraint e1
        then Some (Break (createPrimitive CONSTRAINT) (side_effect_free env e1 ds1))
      else Some (Break type_null
                  (side_effect_free env e1 (handleError ''$Boolean_expected'' ds1))))"

definition check_EXISTS ::
  "'r env \<Rightarrow> 'r expression_t \<Rightarrow> 'r expression_t \<Rightarrow> diagnostic list \<Rightarrow> 'r outcome option" where
  "check_EXISTS env e0 e1 ds =
     (let ds1 = ds @ checkType env (symbol_getType (getSymbol e0)) in
      if isIntegral e1 then Some (Break (createPrimitive BOOL) (side_effect_free env e1 ds1))
      else if isConstraint e1
        then Some (Break (createPrimitive CONSTRAINT) (side_effect_free env e1 ds1))
      else Some (Break type_null
                  (side_effect_free env e1 (handleError ''$Boolean_expected'' ds1))))"

definition check_SUM ::
  "'r env \<Rightarrow> 'r expression_t \<Rightarrow> 'r expression_t \<Rightarrow> diagnostic list \<Rightarrow> 'r outcome option" where
  "check_SUM env e0 e1 ds =
     (let ds1 = ds @ checkType env (symbol_getType (getSymbol e0)) in
      if isIntegral e1 then Some (Break (createPrimitive INT_kind) (side_effect_free env e1 ds1))
      else if isNumber e1
        then Some (Break (createPrimitive DOUBLE) (side_effect_free env e1 ds1))
      else Some (Break type_null
                  (side_effect_free env e1 (handleError ''$Number_expected'' ds1))))"

text \<open>\<open>EXIT\<close> starts with \<open>assert(temp)\<close>.\<close>

definition check_EXIT :: "'r env \<Rightarrow> diagnostic list \<Rightarrow> 'r outcome option" where
  "check_EXIT env ds =
     (case temp env of
        None \<Rightarrow> None
      | Some dynamic \<Rightarrow>
          if \<not> dynamic
            then Some (Return False
                   (handleError ''Exit can only be used in templates declared as dynamic'' ds))
          else Some (Break (createPrimitive INT_kind) ds))"

subsection \<open>Statistical queries\<close>

definition checkNrOfRuns ::
  "'r env \<Rightarrow> 'r expression_t \<Rightarrow> diagnostic list \<Rightarrow> bool \<times> diagnostic list" where
  "checkNrOfRuns env runs ds =
     (if \<not> isCompileTimeComputable env runs
        then (False, handleError ''$Must_be_computable_at_compile_time'' ds)
      else if \<not> isConstantInteger runs then (False, handleError ''$Integer_expected'' ds)
      else (True, ds))"

definition checkBoundTypeOrBoundedExpr ::
  "'r expression_t \<Rightarrow> diagnostic list \<Rightarrow> bool \<times> diagnostic list" where
  "checkBoundTypeOrBoundedExpr boundTypeOrExpr ds =
     (if \<not> isConstantInteger boundTypeOrExpr \<and> \<not> isClock boundTypeOrExpr
        then (False, handleError ''$Clock_expected'' ds)
      else (True, ds))"

definition checkBound ::
  "'r env \<Rightarrow> 'r expression_t \<Rightarrow> diagnostic list \<Rightarrow> bool \<times> diagnostic list" where
  "checkBound env bound ds =
     (if \<not> isCompileTimeComputable env bound
        then (False, handleError ''$Must_be_computable_at_compile_time'' ds)
      else if \<not> isIntegral bound then (False, handleError ''$Integer_expected'' ds)
      else (True, ds))"

definition checkPredicate ::
  "'r env \<Rightarrow> 'r expression_t \<Rightarrow> diagnostic list \<Rightarrow> bool \<times> diagnostic list" where
  "checkPredicate env predicate ds =
     (if \<not> isIntegral predicate \<and> \<not> isConstraint predicate
        then (False, handleError ''$Boolean_expected'' ds)
      else if changesAnyVariable env predicate
        then (False, handleError ''$Property_must_be_side-effect_free'' ds)
      else (True, ds))"

definition checkMonitoredExpr ::
  "'r env \<Rightarrow> 'r expression_t \<Rightarrow> diagnostic list \<Rightarrow> bool \<times> diagnostic list" where
  "checkMonitoredExpr env expr ds =
     (if \<not> isIntegral expr \<and> \<not> isClock expr \<and> \<not> isDoubleValue expr
         \<and> \<not> type_is DOUBLEINVGUARD (getType expr) \<and> \<not> isConstraint expr
        then (False, handleError ''$Integer_or_clock_expected'' ds)
      else if changesAnyVariable env expr
        then (False, handleError ''$Property_must_be_side-effect_free'' ds)
      else (True, ds))"

text \<open>
  The loop \<open>for (int i = 3; i < nb; ++i) if (!checkMonitoredExpr(expr[i])) return false\<close>
  over the monitored expressions, given as a list.
\<close>

fun checkMonitoredExprs ::
  "'r env \<Rightarrow> 'r expression_t list \<Rightarrow> diagnostic list \<Rightarrow> (bool \<times> diagnostic list) option" where
  "checkMonitoredExprs env [] ds = Some (True, ds)"
| "checkMonitoredExprs env (e # es) ds =
     (if e = EmptyExpr then None
      else case checkMonitoredExpr env e ds of
             (ok, ds') \<Rightarrow> if \<not> ok then Some (False, ds') else checkMonitoredExprs env es ds')"

text \<open>
  The shared case of \<open>SIMULATEREACH\<close> and \<open>SIMULATE\<close>. \<open>nb\<close> is the number of children, less
  two for \<open>SIMULATEREACH\<close>, whose last two children are the predicate and the number of
  accepting runs.
\<close>

definition check_SIMULATE ::
  "'r env \<Rightarrow> kind_t \<Rightarrow> 'r expression_t list \<Rightarrow> diagnostic list \<Rightarrow> 'r outcome option" where
  "check_SIMULATE env k cs ds =
     ternary cs (\<lambda>e0 e1 e2.
       let (ok0, ds0) = checkNrOfRuns env e0 ds;
           (ok1, ds1) = (if ok0 \<and> getValue e0 \<le> 0
                         then (False, handleError ''$Invalid_run_count'' ds0)
                         else (ok0, ds0));
           (ok2, ds2) = checkBoundTypeOrBoundedExpr e1 ds1;
           (ok3, ds3) = checkBound env e2 ds2
       in
       if \<not> (ok1 \<and> ok2 \<and> ok3) then Some (Return False ds3)
       else
         let nb = (if k = SIMULATEREACH then length cs - 2 else length cs) in
         if k = SIMULATEREACH
            \<and> (cs ! nb = EmptyExpr \<or> cs ! (nb + 1) = EmptyExpr) then None
         else
           let (ok4, ds4) = (if k = SIMULATEREACH then checkPredicate env (cs ! nb) ds3
                             else (True, ds3));
               (ok5, ds5) = (if k = SIMULATEREACH then checkNrOfRuns env (cs ! (nb + 1)) ds4
                             else (True, ds4))
           in
           if \<not> (ok4 \<and> ok5) then Some (Return False ds5)
           else case checkMonitoredExprs env (take (nb - 3) (drop 3 cs)) ds5 of
                  None \<Rightarrow> None
                | Some (ok6, ds6) \<Rightarrow>
                    if \<not> ok6 then Some (Return False ds6)
                    else Some (Break (createPrimitive FORMULA) ds6))"

text \<open>
  The operands of a simulation query after its first three: the predicate and the number
  of accepting runs of \<open>SIMULATEREACH\<close>, and the monitored expressions.
\<close>

definition reach_operands_pass ::
  "'r env \<Rightarrow> kind_t \<Rightarrow> 'r expression_t list \<Rightarrow> bool" where
  "reach_operands_pass env k cs =
     (k = SIMULATEREACH \<longrightarrow>
        cs ! (length cs - 2) \<noteq> EmptyExpr \<and> cs ! (length cs - 1) \<noteq> EmptyExpr
        \<and> fst (checkPredicate env (cs ! (length cs - 2)) [])
        \<and> fst (checkNrOfRuns env (cs ! (length cs - 1)) []))"

definition monitored :: "kind_t \<Rightarrow> 'r expression_t list \<Rightarrow> 'r expression_t list" where
  "monitored k cs = take ((if k = SIMULATEREACH then length cs - 2 else length cs) - 3) (drop 3 cs)"

subsection \<open>Function calls\<close>

text \<open>
  \<open>isParameterCompatible\<close>: "Returns true iff argument type is compatible with parameter
  type."
\<close>

definition isParameterCompatible :: "'r type_t \<Rightarrow> 'r expression_t \<Rightarrow> bool option" where
  "isParameterCompatible paramType arg =
     (let ref = type_is REF paramType; constant = type_isConstant paramType in
      case isModifiableLValue arg of
        None \<Rightarrow> None
      | Some lvalue \<Rightarrow>
          let argType = getType arg in
          if ref \<and> \<not> constant \<and> \<not> lvalue then Some False
          else if type_isChannel paramType \<and> type_isChannel argType
            then (case (channelCapability argType, channelCapability paramType) of
                    (Some a, Some p) \<Rightarrow> Some (a \<ge> p)
                  | _ \<Rightarrow> None)
          else if ref \<and> lvalue then Some (areEquivalent argType paramType)
          else Some (areAssignmentCompatible paramType argType False))"

definition checkParameterCompatible ::
  "'r type_t \<Rightarrow> 'r expression_t \<Rightarrow> diagnostic list \<Rightarrow> (bool \<times> diagnostic list) option" where
  "checkParameterCompatible paramType arg ds =
     (case isParameterCompatible paramType arg of
        None \<Rightarrow> None
      | Some c \<Rightarrow> if \<not> c then Some (False, handleError ''$Incompatible_argument'' ds)
                  else Some (True, ds))"

text \<open>
  The loop of the \<open>FUNCALL\<close> case over the declared parameters \<open>type[i + 1]\<close> and the
  arguments \<open>expr[i + 1]\<close>: every parameter is checked (\<open>result &= ...\<close>), an argument that
  is missing fails the bounds assertion, arguments beyond the parameters are not read.
\<close>

fun checkParameters ::
  "'r type_t list \<Rightarrow> 'r expression_t list \<Rightarrow> bool \<Rightarrow> diagnostic list
     \<Rightarrow> (bool \<times> diagnostic list) option" where
  "checkParameters [] args result ds = Some (result, ds)"
| "checkParameters (parameter # ps) [] result ds = None"
| "checkParameters (parameter # ps) (argument # args) result ds =
     (case checkParameterCompatible parameter argument ds of
        None \<Rightarrow> None
      | Some (c, ds') \<Rightarrow> checkParameters ps args (result \<and> c) ds')"

subsection \<open>The switch and the tail of \<open>checkExpression\<close>\<close>

text \<open>
  The switch over \<open>expr.getKind()\<close>, in the order of the source, without the \<open>FUNCALL\<close>
  case, which checks a sub-expression again and is part of \<open>checkExpression\<close> below.
  \<open>default\<close> returns true and leaves the node as it is.
\<close>

definition checkOperator ::
  "'r env \<Rightarrow> kind_t \<Rightarrow> 'r expression_t list \<Rightarrow> diagnostic list \<Rightarrow> 'r outcome option" where
  "checkOperator env k cs ds =
     (if k = FRACTION then binary cs (\<lambda>e0 e1. Some (Break (type_FRACTION e0 e1) ds))
      else if k = PLUS then binary cs (\<lambda>e0 e1. Some (Break (type_PLUS e0 e1) ds))
      else if k = MINUS then binary cs (\<lambda>e0 e1. Some (Break (type_MINUS e0 e1) ds))
      else if k = AND then binary cs (\<lambda>e0 e1. Some (Break (type_AND e0 e1) ds))
      else if k = OR then binary cs (\<lambda>e0 e1. Some (Break (type_OR e0 e1) ds))
      else if k = XOR then binary cs (\<lambda>e0 e1. Some (Break (type_XOR e0 e1) ds))
      else if k = EXIT then check_EXIT env ds
      else if k = EQ then binary cs (\<lambda>e0 e1. Some (Break (type_EQ e0 e1) ds))
      else if k = NEQ then binary cs (\<lambda>e0 e1. Some (Break (type_NEQ e0 e1) ds))
      else if k = GE \<or> k = GT \<or> k = LE \<or> k = LT
        then binary cs (\<lambda>e0 e1. Some (Break (type_relational e0 e1) ds))
      else if k = MULT \<or> k = DIV \<or> k = MIN_kind \<or> k = MAX_kind
        then binary cs (\<lambda>e0 e1. Some (Break (type_MULT e0 e1) ds))
      else if k = MOD \<or> k = BIT_AND \<or> k = BIT_OR \<or> k = BIT_XOR \<or> k = BIT_LSHIFT
              \<or> k = BIT_RSHIFT
        then binary cs (\<lambda>e0 e1. Some (Break (type_MOD e0 e1) ds))
      else if k = NOT then unary cs (\<lambda>e0. Some (Break (type_NOT e0) ds))
      else if k = UNARY_MINUS then unary cs (\<lambda>e0. Some (Break (type_UNARY_MINUS e0) ds))
      else if k = RATE then unary cs (\<lambda>e0. Some (Break (type_RATE e0) ds))
      else if k = ASSIGN then binary cs (\<lambda>e0 e1. check_ASSIGN e0 e1 ds)
      else if k = ASSPLUS then binary cs (\<lambda>e0 e1. check_ASSPLUS e0 e1 ds)
      else if k = ASSMINUS \<or> k = ASSDIV \<or> k = ASSMOD \<or> k = ASSMULT \<or> k = ASSAND
              \<or> k = ASSOR \<or> k = ASSXOR \<or> k = ASSLSHIFT \<or> k = ASSRSHIFT
        then binary cs (\<lambda>e0 e1. check_ASSMINUS e0 e1 ds)
      else if k = POSTINCREMENT \<or> k = PREINCREMENT \<or> k = POSTDECREMENT \<or> k = PREDECREMENT
        then unary cs (\<lambda>e0. check_INCREMENT e0 ds)
      else if k = INLINEIF then ternary cs (\<lambda>e0 e1 e2. check_INLINEIF e0 e1 e2 ds)
      else if k = COMMA then binary cs (\<lambda>e0 e1. check_COMMA env e0 e1 ds)
      else if k = ARRAY then binary cs (\<lambda>e0 e1. check_ARRAY e0 e1 ds)
      else if k = FORALL then binary cs (\<lambda>e0 e1. check_FORALL env e0 e1 ds)
      else if k = EXISTS then binary cs (\<lambda>e0 e1. check_EXISTS env e0 e1 ds)
      else if k = SUM_kind then binary cs (\<lambda>e0 e1. check_SUM env e0 e1 ds)
      else if k = AF \<or> k = AG \<or> k = EF \<or> k = EG
        then unary cs (\<lambda>e0. Some (Break (type_path e0) ds))
      else if k = LEADSTO then binary cs (\<lambda>e0 e1. Some (Break (type_LEADSTO e0 e1) ds))
      else if k = SIMULATEREACH \<or> k = SIMULATE then check_SIMULATE env k cs ds
      else Some (Return True ds))"

text \<open>
  After the switch: "if no rule matched, the result type remains unknown", a type error
  is reported and the check fails; otherwise the type is attached to the node.
\<close>

fun finish :: "'r expression_t \<Rightarrow> 'r outcome \<Rightarrow> bool \<times> 'r expression_t \<times> diagnostic list" where
  "finish expr (Return b ds) = (b, expr, ds)"
| "finish expr (Break type ds) =
     (if type_unknown type then (False, expr, handleError ''$Type_error'' ds)
      else (True, setType expr type, ds))"

text \<open>The number of nodes of an expression, which attaching types does not change.\<close>

fun nodes :: "'r expression_t \<Rightarrow> nat" where
  "nodes EmptyExpr = 1"
| "nodes (Expr k cs t v s) = Suc (sum_list (map nodes cs))"

text \<open>
  \<open>TypeChecker::checkExpression\<close>. The node is returned with the types that \<open>setType\<close>
  attached to it and to its sub-expressions. All children are checked, also after one has
  failed (\<open>ok &= checkExpression(expr[i])\<close>). The \<open>FUNCALL\<close> case checks \<open>expr[0]\<close> a second
  time, reads the function type from it, and returns without attaching a type.
\<close>

function checkExpression ::
  "'r env \<Rightarrow> 'r expression_t \<Rightarrow> diagnostic list
     \<Rightarrow> (bool \<times> 'r expression_t \<times> diagnostic list) option"
and checkSubs ::
  "'r env \<Rightarrow> 'r expression_t list \<Rightarrow> diagnostic list
     \<Rightarrow> (bool \<times> 'r expression_t list \<times> diagnostic list) option"
where
  "checkExpression env EmptyExpr ds = Some (True, EmptyExpr, ds)"
| "checkExpression env (Expr k cs t v s) ds =
     (case checkSubs env cs ds of
        None \<Rightarrow> None
      | Some (ok, cs', ds1) \<Rightarrow>
          if \<not> ok then Some (False, Expr k cs' t v s, ds1)
          else if k = FUNCALL then
            (case cs' of
               [] \<Rightarrow> None
             | f # args \<Rightarrow>
                 (case checkExpression env f ds1 of
                    None \<Rightarrow> None
                  | Some (okf, f', ds2) \<Rightarrow>
                      if f' = EmptyExpr \<or> type_size (getType f') = 0 then None
                      else
                        (case checkParameters (map snd (tl (type_children (getType f'))))
                                args True ds2 of
                           None \<Rightarrow> None
                         | Some (result, ds3) \<Rightarrow>
                             Some (result, Expr k (f' # args) t v s, ds3))))
          else
            (case checkOperator env k cs' ds1 of
               None \<Rightarrow> None
             | Some out \<Rightarrow> Some (finish (Expr k cs' t v s) out)))"
| "checkSubs env [] ds = Some (True, [], ds)"
| "checkSubs env (c # cs) ds =
     (case checkExpression env c ds of
        None \<Rightarrow> None
      | Some (ok1, c', ds1) \<Rightarrow>
          (case checkSubs env cs ds1 of
             None \<Rightarrow> None
           | Some (ok2, cs', ds2) \<Rightarrow> Some (ok1 \<and> ok2, c' # cs', ds2)))"
  by pat_completeness auto

lemma nodes_pos: "0 < nodes e"
  by (cases e) simp_all

lemma nodes_setType [simp]: "nodes (setType e t) = nodes e"
  by (cases e) simp_all

lemma nodes_finish: "finish e out = (ok, e', ds') \<Longrightarrow> nodes e' = nodes e"
  by (cases out) (auto split: if_splits)

lemma checkExpression_nodes_partial:
  "checkExpression_checkSubs_dom (Inl (env, e, ds)) \<Longrightarrow>
     checkExpression env e ds = Some (ok, e', ds') \<Longrightarrow> nodes e' = nodes e"
  "checkExpression_checkSubs_dom (Inr (env, cs, ds)) \<Longrightarrow>
     checkSubs env cs ds = Some (ok, cs', ds') \<Longrightarrow>
     sum_list (map nodes cs') = sum_list (map nodes cs)"
proof (induction env e ds and env cs ds arbitrary: ok e' ds' and ok cs' ds'
       rule: checkExpression_checkSubs.pinduct)
  case (1 env ds)
  then show ?case by (simp add: checkExpression.psimps)
next
  case (2 env k cs t v s ds)
  from "2.prems" "2.hyps" obtain ok1 cs1 ds1 where
    subs: "checkSubs env cs ds = Some (ok1, cs1, ds1)"
    by (auto simp: checkExpression.psimps split: option.splits)
  from "2.IH"(1) [OF subs] have n1: "sum_list (map nodes cs1) = sum_list (map nodes cs)" .
  show ?case
  proof (cases "\<not> ok1")
    case True
    with "2.prems" "2.hyps" subs n1 show ?thesis
      by (auto simp: checkExpression.psimps)
  next
    case ok1: False
    show ?thesis
    proof (cases "k = FUNCALL")
      case True
      with "2.prems" "2.hyps" subs ok1 obtain f args okf f' ds2 where
        cs1: "cs1 = f # args" and
        f: "checkExpression env f ds1 = Some (okf, f', ds2)" and
        e': "e' = Expr k (f' # args) t v s"
        by (auto simp: checkExpression.psimps split: option.splits list.splits if_splits)
      from "2.IH"(2) [OF subs refl refl _ True cs1 f] ok1
      have "nodes f' = nodes f" by simp
      with e' cs1 n1 show ?thesis by simp
    next
      case False
      with "2.prems" "2.hyps" subs ok1 obtain out where
        "finish (Expr k cs1 t v s) out = (ok, e', ds')"
        by (auto simp: checkExpression.psimps split: option.splits)
      from nodes_finish [OF this] n1 show ?thesis by simp
    qed
  qed
next
  case (3 env ds)
  then show ?case by (simp add: checkSubs.psimps)
next
  case (4 env c cs ds)
  from "4.prems" "4.hyps" obtain ok1 c1 ds1 ok2 cs2 where
    c: "checkExpression env c ds = Some (ok1, c1, ds1)" and
    r: "checkSubs env cs ds1 = Some (ok2, cs2, ds')" and
    cs': "cs' = c1 # cs2"
    by (fastforce simp: checkSubs.psimps split: option.splits)
  from "4.IH"(1) [OF c] "4.IH"(2) [OF c refl refl r] cs' show ?case by simp
qed

termination checkExpression
proof (relation "measure (\<lambda>x. case x of
          Inl (env, e, ds) \<Rightarrow> 2 * nodes e
        | Inr (env, cs, ds) \<Rightarrow> 2 * sum_list (map nodes cs) + 1)", goal_cases)
  case 1
  then show ?case by simp
next
  case (2 env k cs t v s ds)
  then show ?case by simp
next
  case (3 env k cs t v s ds x2 x y xa ya x21 x22)
  then have "sum_list (map nodes xa) = sum_list (map nodes cs)"
    using checkExpression_nodes_partial(2) [of env cs ds x xa ya] by simp
  with 3 show ?case by simp
next
  case (4 env c cs ds)
  then show ?case by simp
next
  case (5 env c cs ds x2 x y xa ya)
  then show ?case using nodes_pos [of c] by simp
qed

subsection \<open>The call node\<close>


section \<open>Rate decomposition and states\<close>

text \<open>
  \<open>RateDecomposer\<close>. Its constructor starts from the invariant \<open>1\<close>, no cost rate, both
  flags false and the count 0. The count is a \<open>size_t\<close> that grows by one per cost rate
  found in the expression.
\<close>

record 'r RateDecomposer =
  costRate :: "'r expression_t"
  invariant :: "'r expression_t"
  hasStrictInvariant :: bool
  hasClockRates :: bool
  countCostRates :: nat

definition RateDecomposer_init :: "'r RateDecomposer" where
  "RateDecomposer_init =
     \<lparr> costRate = EmptyExpr, invariant = createConstant 1, hasStrictInvariant = False,
       hasClockRates = False, countCostRates = 0 \<rparr>"

text \<open>
  \<open>invariant = invariant.empty() ? expr : createBinary(AND, invariant, expr, pos, type)\<close>.
\<close>

definition conjoin ::
  "'r expression_t \<Rightarrow> 'r expression_t \<Rightarrow> kind_t \<Rightarrow> 'r expression_t" where
  "conjoin invar expr k =
     (if invar = EmptyExpr then expr else createBinary AND invar expr (createPrimitive k))"

text \<open>
  \<open>RateDecomposer::decompose\<close>. \<open>None\<close> is a failed assertion: of the function itself
  (\<open>isInvariantWR(expr)\<close>, exactly one side of an equation of type \<open>RATE\<close>, a remaining
  expression being a \<open>FORALL\<close>) or of a read of a missing or empty sub-expression.
\<close>

fun decompose ::
  "'r expression_t \<Rightarrow> bool \<Rightarrow> 'r RateDecomposer \<Rightarrow> 'r RateDecomposer option" where
  "decompose EmptyExpr inforall d = None"
| "decompose (Expr k cs t v s) inforall d =
     (if \<not> isInvariantWR (Expr k cs t v s) then None
      else if isInvariant (Expr k cs t v s) then
        Some (d\<lparr> hasStrictInvariant := (k = LT \<or> hasStrictInvariant d),
                 invariant := (if \<not> inforall
                               then conjoin (invariant d) (Expr k cs t v s) INVARIANT
                               else invariant d) \<rparr>)
      else if k = AND then
        (case cs of
           e0 # e1 # es \<Rightarrow>
             (case decompose e0 inforall d of
                None \<Rightarrow> None
              | Some d' \<Rightarrow> decompose e1 inforall d')
         | _ \<Rightarrow> None)
      else if k = EQ then
        (case cs of
           e0 # e1 # es \<Rightarrow>
             if e0 = EmptyExpr \<or> e1 = EmptyExpr then None
             else if (type_getKind (getType e0) = RATE) = (type_getKind (getType e1) = RATE)
               then None
             else
               (case (if type_getKind (getType e0) = RATE then (subs e0, e1) else (subs e1, e0)) of
                  ([], right) \<Rightarrow> None
                | (left # ls, right) \<Rightarrow>
                    if left = EmptyExpr then None
                    else if isCost left
                      then Some (d\<lparr> costRate := right,
                                     countCostRates := countCostRates d + 1 \<rparr>)
                    else Some (d\<lparr> hasClockRates := True,
                                     invariant :=
                                       (if \<not> inforall
                                        then conjoin (invariant d) (Expr k cs t v s) INVARIANT_WR
                                        else invariant d) \<rparr>))
         | _ \<Rightarrow> None)
      else if k \<noteq> FORALL then None
      else
        (case cs of
           e0 # e1 # es \<Rightarrow>
             (case decompose e1 True d of
                None \<Rightarrow> None
              | Some d' \<Rightarrow>
                  Some (d'\<lparr> invariant :=
                               conjoin (invariant d') (Expr k cs t v s) INVARIANT_WR \<rparr>))
         | _ \<Rightarrow> None))"

text \<open>
  The fields of \<open>state_t\<close> that \<open>visitState\<close> reads and writes, and the part of the system
  it reports to: the diagnostics buffer and the flags set by \<open>recordStopWatch\<close> and
  \<open>recordStrictInvariant\<close>.
\<close>

record 'r state_t =
  state_invariant :: "'r expression_t"
  state_costRate :: "'r expression_t"
  state_exponentialRate :: "'r expression_t"

record system_t =
  diagnostics :: "diagnostic list"
  stopWatch :: bool
  strictInvariant :: bool

text \<open>The first half of \<open>TypeChecker::visitState\<close>: the invariant.\<close>

definition visitState_invariant ::
  "'r env \<Rightarrow> 'r state_t \<Rightarrow> system_t \<Rightarrow> ('r state_t \<times> system_t) option" where
  "visitState_invariant env state sys =
     (if state_invariant state = EmptyExpr then Some (state, sys)
      else case checkExpression env (state_invariant state) (diagnostics sys) of
        None \<Rightarrow> None
      | Some (ok, invar, ds) \<Rightarrow>
          if \<not> ok then Some (state\<lparr> state_invariant := invar \<rparr>, sys\<lparr> diagnostics := ds \<rparr>)
          else if \<not> isInvariantWR invar then
            Some (state\<lparr> state_invariant := invar \<rparr>,
                  sys\<lparr> diagnostics :=
                         handleError (''$Expression_of_type '' @ type_toString env (getType invar)
                                      @ '' $cannot_be_used_as_an_invariant'') ds \<rparr>)
          else if changesAnyVariable env invar then
            Some (state\<lparr> state_invariant := invar \<rparr>,
                  sys\<lparr> diagnostics := handleError ''$Invariant_must_be_side-effect_free'' ds \<rparr>)
          else
            (case decompose invar False RateDecomposer_init of
               None \<Rightarrow> None
             | Some decomposer \<Rightarrow>
                 let ds1 = (if countCostRates decomposer > 1
                            then handleError ''$Only_one_cost_rate_is_allowed'' ds else ds);
                     ds2 = (if hasStrictInvariant decomposer \<and> ENABLE_TIGA env
                            then handleWarning ''$Strict_invariant'' ds1 else ds1)
                 in Some (state\<lparr> state_invariant := invariant decomposer,
                                 state_costRate := costRate decomposer \<rparr>,
                          sys\<lparr> diagnostics := ds2,
                               stopWatch := (hasClockRates decomposer \<or> stopWatch sys),
                               strictInvariant :=
                                 (hasStrictInvariant decomposer \<or> strictInvariant sys) \<rparr>)))"

text \<open>The second half: the exponential rate.\<close>

definition visitState_exponentialRate ::
  "'r env \<Rightarrow> 'r state_t \<Rightarrow> system_t \<Rightarrow> ('r state_t \<times> system_t) option" where
  "visitState_exponentialRate env state sys =
     (if state_exponentialRate state = EmptyExpr then Some (state, sys)
      else case checkExpression env (state_exponentialRate state) (diagnostics sys) of
        None \<Rightarrow> None
      | Some (ok, rate, ds) \<Rightarrow>
          Some (state\<lparr> state_exponentialRate := rate \<rparr>,
                sys\<lparr> diagnostics :=
                       (if ok \<and> \<not> isIntegral rate \<and> getKind rate \<noteq> FRACTION
                           \<and> \<not> type_isDouble (getType rate)
                        then handleError ''$Number_expected'' ds else ds) \<rparr>))"

definition visitState ::
  "'r env \<Rightarrow> 'r state_t \<Rightarrow> system_t \<Rightarrow> ('r state_t \<times> system_t) option" where
  "visitState env state sys =
     (case visitState_invariant env state sys of
        None \<Rightarrow> None
      | Some (state', sys') \<Rightarrow> visitState_exponentialRate env state' sys')"

section \<open>Shapes of invariants\<close>

text \<open>
  The words of the claims about states. A cost-rate equation is \<open>rate(c) == e\<close> or
  \<open>e == rate(c)\<close> with \<open>c\<close> of cost type: an \<open>EQ\<close> node, typed as an invariant with rates,
  one side of which is a \<open>RATE\<close> node of type \<open>RATE\<close> over a cost operand while the other
  side \<open>e\<close> is not of type \<open>RATE\<close>.
\<close>

definition rate_of_cost :: "'r expression_t \<Rightarrow> bool" where
  "rate_of_cost x =
     (getKind x = RATE \<and> type_getKind (getType x) = RATE
      \<and> (case subs x of [] \<Rightarrow> False | c # cs \<Rightarrow> c \<noteq> EmptyExpr \<and> isCost c))"

definition cost_rate_equation :: "'r expression_t \<Rightarrow> 'r expression_t option" where
  "cost_rate_equation expr =
     (if getKind expr = EQ \<and> \<not> isInvariant expr \<and> isInvariantWR expr then
        (case subs expr of
           [l, r] \<Rightarrow>
             if l = EmptyExpr \<or> r = EmptyExpr then None
             else if rate_of_cost l \<and> type_getKind (getType r) \<noteq> RATE then Some r
             else if rate_of_cost r \<and> type_getKind (getType l) \<noteq> RATE then Some l
             else None
         | _ \<Rightarrow> None)
      else None)"


text \<open>
  The number of cost-rate equations that an expression contains, anywhere in its tree.
\<close>

fun costRateEquations :: "'r expression_t \<Rightarrow> nat" where
  "costRateEquations EmptyExpr = 0"
| "costRateEquations (Expr k cs t v s) =
     (if cost_rate_equation (Expr k cs t v s) \<noteq> None then 1 else 0)
     + sum_list (map costRateEquations cs)"

text \<open>
  The invariants that \<open>decompose\<close> is written for: a pure invariant (without rates inside),
  an equation of a rate with an expression (without rates inside), a universally
  quantified invariant of this kind, or a conjunction of two of them.
\<close>

definition rate_equation :: "'r expression_t \<Rightarrow> bool" where
  "rate_equation expr =
     (getKind expr = EQ \<and> \<not> isInvariant expr \<and> isInvariantWR expr
      \<and> (case subs expr of
            [l, r] \<Rightarrow>
              l \<noteq> EmptyExpr \<and> r \<noteq> EmptyExpr
              \<and> ((type_getKind (getType l) = RATE) \<noteq> (type_getKind (getType r) = RATE))
              \<and> (let x = (if type_getKind (getType l) = RATE then l else r);
                      e = (if type_getKind (getType l) = RATE then r else l)
                  in getKind x = RATE
                     \<and> (case subs x of [c] \<Rightarrow> c \<noteq> EmptyExpr \<and> costRateEquations c = 0
                         | _ \<Rightarrow> False)
                     \<and> costRateEquations e = 0)
          | _ \<Rightarrow> False))"

fun decomposable :: "'r expression_t \<Rightarrow> bool" where
  "decomposable EmptyExpr = False"
| "decomposable (Expr k cs t v s) =
     (if isInvariant (Expr k cs t v s) then costRateEquations (Expr k cs t v s) = 0
      else if \<not> type_is INVARIANT_WR t then False
      else if k = AND then
        (case cs of [a, b] \<Rightarrow> decomposable a \<and> decomposable b | _ \<Rightarrow> False)
      else if k = EQ then rate_equation (Expr k cs t v s)
      else if k = FORALL then
        (case cs of [x, body] \<Rightarrow> costRateEquations x = 0 \<and> decomposable body | _ \<Rightarrow> False)
      else False)"


section \<open>Initialisers\<close>

lemma nodes_nth: "i < length cs \<Longrightarrow> nodes (cs ! i) < nodes (Expr k cs t v s)"
  using member_le_sum_list [of "nodes (cs ! i)" "map nodes cs"]
  by (simp add: less_Suc_eq_le)

lemma nodes_nth_subs: "i < length (subs init) \<Longrightarrow> nodes (subs init ! i) < nodes init"
  by (cases init) (simp_all add: nodes_nth del: nodes.simps)

text \<open>
  The check after the loop over the entries of a record initialiser: "Check that all
  fields do have an initialiser."
\<close>

definition incomplete :: "'r expression_t list \<Rightarrow> diagnostic list \<Rightarrow> diagnostic list" where
  "incomplete result ds =
     (if EmptyExpr \<in> set result then handleError ''$Incomplete_initialiser'' ds else ds)"

text \<open>
  \<open>TypeChecker::checkInitialiser\<close>: "Checks whether init is a valid initialiser for a
  variable or constant of the given type. For record types, the initialiser is reordered
  to fit the order of the fields and the new initialiser is returned." The two loops are
  \<open>array_loop\<close> and \<open>record_loop\<close>, with the loop variables \<open>i\<close> and \<open>current\<close> and the
  vector \<open>result\<close> as arguments. The entries of the initialiser are counted by the size
  of its type and read as \<open>init[i]\<close>; \<open>None\<close> is a read of a missing entry or of an empty
  expression, or the record size of a type that is not a record.
\<close>

function checkInitialiser ::
  "'r type_t \<Rightarrow> 'r expression_t \<Rightarrow> diagnostic list
     \<Rightarrow> ('r expression_t \<times> diagnostic list) option"
and array_loop ::
  "'r type_t \<Rightarrow> 'r expression_t \<Rightarrow> nat \<Rightarrow> 'r expression_t list \<Rightarrow> diagnostic list
     \<Rightarrow> ('r expression_t list \<times> diagnostic list) option"
and record_loop ::
  "'r type_t \<Rightarrow> 'r expression_t \<Rightarrow> nat \<Rightarrow> int \<Rightarrow> 'r expression_t list \<Rightarrow> diagnostic list
     \<Rightarrow> ('r expression_t list \<times> diagnostic list) option"
where
  "checkInitialiser type init ds =
     (if init = EmptyExpr then None
      else if areAssignmentCompatible type (getType init) True then Some (init, ds)
      else if type_isArray type \<and> getKind init = LIST then
        (case array_loop (type_getSub type 0) init 0
                (replicate (getSize init) EmptyExpr) ds of
           None \<Rightarrow> None
         | Some (result, ds') \<Rightarrow> Some (createNary LIST result type, ds'))
      else if type_isRecord type \<or> getKind init = LIST then
        (if \<not> type_isRecord type then None
         else case record_loop type init 0 0
                     (replicate (type_getRecordSize type) EmptyExpr) ds of
           None \<Rightarrow> None
         | Some (result, ds') \<Rightarrow> Some (createNary LIST result type, incomplete result ds'))
      else Some (init, handleError ''$Invalid_initialiser'' ds))"
| "array_loop subtype init i result ds =
     (if i < type_size (getType init) then
        (if \<not> i < getSize init then None
         else case checkInitialiser subtype (subs init ! i)
                     (if type_getLabel (getType init) i \<noteq> []
                      then handleError ''$Field_name_not_allowed_in_array_initialiser'' ds
                      else ds) of
           None \<Rightarrow> None
         | Some (r, ds') \<Rightarrow> array_loop subtype init (i + 1) (result[i := r]) ds')
      else Some (result, ds))"
| "record_loop type init i current result ds =
     (if i < type_size (getType init) then
        (if \<not> i < getSize init then None
         else
           let label = type_getLabel (getType init) i;
               current = (if label \<noteq> [] then type_findIndexOf type label else current)
           in
           if label \<noteq> [] \<and> current = - 1
             then Some (result, handleError ''$Unknown_field'' ds)
           else if current \<ge> int (type_getRecordSize type)
             then Some (result, handleError ''$Too_many_elements_in_initialiser'' ds)
           else if current < 0 then None
           else if result ! nat current \<noteq> EmptyExpr
             then record_loop type init (i + 1) (current + 1) result
                    (handleError ''$Multiple_initialisers_for_field'' ds)
           else case checkInitialiser (type_getSub type (nat current)) (subs init ! i) ds of
             None \<Rightarrow> None
           | Some (r, ds') \<Rightarrow>
               record_loop type init (i + 1) (current + 1) (result[nat current := r]) ds')
      else Some (result, ds))"
  by pat_completeness auto
termination checkInitialiser
  by (relation "inv_image (less_than <*lex*> less_than <*lex*> less_than)
        (\<lambda>x. case x of
           Inl (type, init, ds) \<Rightarrow> (nodes init, 1::nat, 0::nat)
         | Inr (Inl (subtype, init, i, result, ds)) \<Rightarrow>
             (nodes init, 0, type_size (getType init) - i)
         | Inr (Inr (type, init, i, current, result, ds)) \<Rightarrow>
             (nodes init, 0, type_size (getType init) - i))")
     (auto simp: getSize_def nodes_nth_subs)

declare checkInitialiser.simps [simp del] array_loop.simps [simp del]
  record_loop.simps [simp del]

text \<open>
  What the entries of an initialiser mean, in the words of the language: an entry
  written with a field name is an initialiser for a field of that name, and an entry
  written without one for the field after the field of the entry before it, the first
  entry for the first field. \<open>designates type init j f\<close>: entry \<open>j\<close> of \<open>init\<close> is written for
  field \<open>f\<close> of the record \<open>type\<close>.
\<close>

fun designates :: "'r type_t \<Rightarrow> 'r expression_t \<Rightarrow> nat \<Rightarrow> nat \<Rightarrow> bool" where
  "designates type init 0 f =
     (if type_getLabel (getType init) 0 \<noteq> []
      then f < type_getRecordSize type
           \<and> type_getRecordLabel type f = type_getLabel (getType init) 0
      else f = 0)"
| "designates type init (Suc j) f =
     (if type_getLabel (getType init) (Suc j) \<noteq> []
      then f < type_getRecordSize type
           \<and> type_getRecordLabel type f = type_getLabel (getType init) (Suc j)
      else 0 < f \<and> designates type init j (f - 1))"

text \<open>
  A list initialiser as the parser builds it: a \<open>LIST\<close> node over its entries, typed with
  the record of the names and the types of the entries.
\<close>

definition isListInitialiser :: "'r expression_t \<Rightarrow> bool" where
  "isListInitialiser init =
     (getKind init = LIST \<and> EmptyExpr \<notin> set (subs init)
      \<and> type_getKind (getType init) = RECORD
      \<and> map snd (type_children (getType init)) = map getType (subs init))"

section \<open>Example inputs\<close>

definition env0 :: "int env" where
  "env0 = \<lparr> changesAnyVariable = (\<lambda>e. False), collectPossibleReads = (\<lambda>e. []),
            compileTimeComputableValues = [], checkType = (\<lambda>t. []),
            type_toString = (\<lambda>t. []), ENABLE_TIGA = False, temp = None \<rparr>"

definition ex_x :: "int expression_t" where
  "ex_x = Expr IDENTIFIER [] (createPrimitive INT_kind) 0 (Symbol ''x'' (createPrimitive INT_kind))"


text \<open>
  A scalar set declared as \<open>typedef scalar[3] S\<close>, and the type \<open>S &\<close> of a reference
  parameter of that set.
\<close>

definition scalar_S :: "int type_t" where
  "scalar_S = createLabel ''S'' (createRange (createPrimitive SCALAR) 0 2)"

definition ref_scalar_S :: "int type_t" where
  "ref_scalar_S = createPrefix REF scalar_S"

text \<open>Expression nodes as the builder leaves them: typed leaves, untyped operators.\<close>

definition sys0 :: system_t where
  "sys0 = \<lparr> diagnostics = [], stopWatch = False, strictInvariant = False \<rparr>"

definition id_expr :: "string \<Rightarrow> int type_t \<Rightarrow> int expression_t" where
  "id_expr n t = Expr IDENTIFIER [] t 0 (Symbol n t)"

definition int_expr :: "int \<Rightarrow> int expression_t" where
  "int_expr v = Expr CONSTANT [] (createPrimitive INT_kind) v NoSymbol"

definition op_expr :: "kind_t \<Rightarrow> int expression_t list \<Rightarrow> int expression_t" where
  "op_expr k es = Expr k es type_null 0 NoSymbol"

definition typed_expr :: "kind_t \<Rightarrow> int expression_t list \<Rightarrow> kind_t \<Rightarrow> int expression_t" where
  "typed_expr k es t = Expr k es (createPrimitive t) 0 NoSymbol"

definition state_with :: "int expression_t \<Rightarrow> int state_t" where
  "state_with e =
     \<lparr> state_invariant = e, state_costRate = EmptyExpr, state_exponentialRate = EmptyExpr \<rparr>"

definition x_clock :: "int expression_t" where
  "x_clock = id_expr ''x'' (createPrimitive CLOCK)"

definition a_chan :: "int expression_t" where
  "a_chan = id_expr ''a'' (createPrimitive CHANNEL)"



text \<open>
  Invariants over a clock \<open>x\<close>, the cost \<open>c\<close> and a boolean \<open>b\<close>, as built and as checked.
\<close>

definition c_cost :: "int expression_t" where
  "c_cost = id_expr ''c'' (createPrimitive COST)"

definition b_bool :: "int expression_t" where
  "b_bool = id_expr ''b'' (createPrimitive BOOL)"

definition cost_rate :: "int \<Rightarrow> int expression_t" where
  "cost_rate n = op_expr EQ [op_expr RATE [c_cost], int_expr n]"

definition cost_rate_checked :: "int \<Rightarrow> int expression_t" where
  "cost_rate_checked n = typed_expr EQ [typed_expr RATE [c_cost] RATE, int_expr n] INVARIANT_WR"








text \<open>\<open>c' == 2 && c' == 3\<close>\<close>

definition scenario_3 :: "int expression_t" where
  "scenario_3 = op_expr AND [cost_rate 2, cost_rate 3]"

definition scenario_3_checked :: "int expression_t" where
  "scenario_3_checked = typed_expr AND [cost_rate_checked 2, cost_rate_checked 3] INVARIANT_WR"

text \<open>\<open>(c' == 2 || b) && (c' == 3 || b)\<close>\<close>

definition rates_under_or :: "int expression_t" where
  "rates_under_or = op_expr AND [op_expr OR [cost_rate 2, b_bool], op_expr OR [cost_rate 3, b_bool]]"

definition rates_under_or_checked :: "int expression_t" where
  "rates_under_or_checked =
     typed_expr AND [typed_expr OR [cost_rate_checked 2, b_bool] INVARIANT_WR,
                     typed_expr OR [cost_rate_checked 3, b_bool] INVARIANT_WR] INVARIANT_WR"

text \<open>
  The record \<open>struct { int x; int y; }\<close> and the initialisers \<open>{ y: 1, x: 2 }\<close> and \<open>{ y: 1 }\<close>.
\<close>

definition S_xy :: "int type_t" where
  "S_xy = createRecord [(''x'', createPrimitive INT_kind), (''y'', createPrimitive INT_kind)]"

definition init_y1_x2 :: "int expression_t" where
  "init_y1_x2 = Expr LIST [int_expr 1, int_expr 2]
     (createRecord [(''y'', createPrimitive INT_kind), (''x'', createPrimitive INT_kind)]) 0 NoSymbol"


definition init_y1 :: "int expression_t" where
  "init_y1 = Expr LIST [int_expr 1] (createRecord [(''y'', createPrimitive INT_kind)]) 0 NoSymbol"

text \<open>The initialiser \<open>{ { 1, 2 } }\<close>: one entry, itself a list.\<close>

definition init_nested :: "int expression_t" where
  "init_nested =
     Expr LIST
       [Expr LIST [int_expr 1, int_expr 2]
          (createRecord [([], createPrimitive INT_kind), ([], createPrimitive INT_kind)])
          0 NoSymbol]
       (createRecord
          [([], createRecord [([], createPrimitive INT_kind), ([], createPrimitive INT_kind)])])
       0 NoSymbol"

section \<open>Return analysis of the if statement\<close>

text \<open>
  C9. \<open>IfStatement::returns()\<close> is true exactly when the false branch is present and both
  branches return; an if statement without an else branch never returns for sure, whether
  or not its true branch does.
\<close>

theorem IfStatement_returns:
  "returns (IfStatement cond trueCase falseCase)
     = (case falseCase of None \<Rightarrow> False | Some f \<Rightarrow> returns trueCase \<and> returns f)
   \<and> returns (IfStatement cond trueCase None) = False"
  by (cases falseCase) simp_all

section \<open>Lvalues\<close>

lemma isAssignmentKind_distinct:
  "isAssignmentKind k \<Longrightarrow>
     k \<noteq> IDENTIFIER \<and> k \<noteq> DOT \<and> k \<noteq> ARRAY \<and> k \<noteq> INLINEIF \<and> k \<noteq> COMMA"
  unfolding isAssignmentKind_def by (elim disjE) (simp_all add: kind_defs)

lemma lvalue_kinds_distinct:
  "DOT \<noteq> IDENTIFIER" "ARRAY \<noteq> IDENTIFIER" "INLINEIF \<noteq> IDENTIFIER" "COMMA \<noteq> IDENTIFIER"
  "ARRAY \<noteq> DOT" "INLINEIF \<noteq> DOT" "COMMA \<noteq> DOT" "INLINEIF \<noteq> ARRAY" "COMMA \<noteq> ARRAY"
  "COMMA \<noteq> INLINEIF"
  "IDENTIFIER \<noteq> DOT" "IDENTIFIER \<noteq> ARRAY" "IDENTIFIER \<noteq> INLINEIF" "IDENTIFIER \<noteq> COMMA"
  "DOT \<noteq> ARRAY" "DOT \<noteq> INLINEIF" "DOT \<noteq> COMMA" "ARRAY \<noteq> INLINEIF" "ARRAY \<noteq> COMMA"
  "INLINEIF \<noteq> COMMA"
  by (simp_all add: kind_defs)

lemma not_assignment_kinds:
  "\<not> isAssignmentKind IDENTIFIER" "\<not> isAssignmentKind DOT" "\<not> isAssignmentKind ARRAY"
  "\<not> isAssignmentKind INLINEIF" "\<not> isAssignmentKind COMMA"
  by (simp_all add: isAssignmentKind_def kind_defs)

lemmas lvalue_kinds = lvalue_kinds_distinct not_assignment_kinds

lemma mod_lv: "isModifiableLValue e = Some True \<Longrightarrow> isLValue e = Some True"
proof (induction e)
  case EmptyExpr
  then show ?case by simp
next
  case (Expr k cs t v s)
  note IH = Expr.IH and prem = Expr.prems
  consider (id) "k = IDENTIFIER" | (asg) "isAssignmentKind k" | (dot) "k = DOT"
    | (arr) "k = ARRAY" | (iif) "k = INLINEIF" | (comma) "k = COMMA"
    | (other) "k \<noteq> IDENTIFIER" "\<not> isAssignmentKind k" "k \<noteq> DOT" "k \<noteq> ARRAY"
        "k \<noteq> INLINEIF" "k \<noteq> COMMA"
    by blast
  then show ?case
  proof cases
    case id
    then show ?thesis by simp
  next
    case asg
    then show ?thesis by simp
  next
    case dot
    with prem IH show ?thesis
      by (cases cs) (simp_all add: lvalue_kinds split: if_splits)
  next
    case arr
    with prem IH show ?thesis
      by (cases cs) (simp_all add: lvalue_kinds split: if_splits)
  next
    case iif
    with prem IH show ?thesis
      by (simp add: lvalue_kinds split: list.splits)
  next
    case comma
    with prem IH show ?thesis
      by (simp add: lvalue_kinds split: list.splits)
  next
    case other
    with prem show ?thesis by simp
  qed
qed

lemma uniq_lv: "isUniqueReference env e = Some True \<Longrightarrow> isLValue e = Some True"
proof (induction e)
  case EmptyExpr
  then show ?case by simp
next
  case (Expr k cs t v s)
  note IH = Expr.IH and prem = Expr.prems
  consider (id) "k = IDENTIFIER" | (asg) "isAssignmentKind k" | (dot) "k = DOT"
    | (arr) "k = ARRAY" | (iif) "k = INLINEIF" | (comma) "k = COMMA"
    | (other) "k \<noteq> IDENTIFIER" "\<not> isAssignmentKind k" "k \<noteq> DOT" "k \<noteq> ARRAY"
        "k \<noteq> INLINEIF" "k \<noteq> COMMA"
    by blast
  then show ?case
  proof cases
    case id
    then show ?thesis by simp
  next
    case asg
    then show ?thesis by simp
  next
    case dot
    with prem IH show ?thesis
      by (cases cs) (simp_all add: lvalue_kinds split: if_splits)
  next
    case arr
    with prem IH show ?thesis
      by (cases cs) (simp_all add: lvalue_kinds split: if_splits)
  next
    case iif
    with prem IH show ?thesis
      by (simp add: lvalue_kinds split: list.splits)
  next
    case comma
    with prem IH show ?thesis
      by (simp add: lvalue_kinds split: list.splits)
  next
    case other
    with prem show ?thesis by simp
  qed
qed

text \<open>
  C8. Whenever \<open>isModifiableLValue(e)\<close> returns true, so does \<open>isLValue(e)\<close>; whenever
  \<open>isUniqueReference(e)\<close> returns true, so does \<open>isLValue(e)\<close>.
\<close>

theorem lvalue_implications:
  "(isModifiableLValue e = Some True \<longrightarrow> isLValue e = Some True)
   \<and> (isUniqueReference env e = Some True \<longrightarrow> isLValue e = Some True)"
  using mod_lv uniq_lv by blast

theorem lvalue_implications_witness:
  "isModifiableLValue ex_x = Some True \<and> isUniqueReference env0 ex_x = Some True
   \<and> isLValue ex_x = Some True"
proof -
  have m: "isModifiableLValue ex_x = Some True"
    by (simp add: ex_x_def createPrimitive_def type_isNonConstant_def kind_defs)
  have u: "isUniqueReference env0 ex_x = Some True"
    by (simp add: ex_x_def)
  from lvalue_implications [of ex_x env0] m u show ?thesis by simp
qed


section \<open>Equivalence of types\<close>

text \<open>
  C6. \<open>areEquivalent\<close> is meant to be reflexive and symmetric, also on scalar types that
  carry \<open>const\<close>, \<open>meta\<close> or \<open>ref\<close> prefixes. On the reference type \<open>S &\<close> of a scalar set
  \<open>S\<close> the code is neither: \<open>isSameScalarType\<close> strips \<open>REF\<close> from its first argument only
  (the second is compared with \<open>EF\<close>), so \<open>S &\<close> is not equivalent to itself, and \<open>S &\<close> is
  equivalent to \<open>S\<close> while \<open>S\<close> is not equivalent to \<open>S &\<close>.
\<close>

theorem areEquivalent_ref_scalar:
  "areEquivalent ref_scalar_S ref_scalar_S = False
   \<and> areEquivalent ref_scalar_S scalar_S = True
   \<and> areEquivalent scalar_S ref_scalar_S = False"
  by code_simp

section \<open>Rules of the operator algebra\<close>

lemma checkExpression_operator:
  "checkSubs env cs ds = Some (True, cs', ds1) \<Longrightarrow> k \<noteq> FUNCALL \<Longrightarrow>
     checkExpression env (Expr k cs t v s) ds
       = map_option (finish (Expr k cs' t v s)) (checkOperator env k cs' ds1)"
  by (simp split: option.splits)

lemma checkExpression_failed_subs:
  "checkSubs env cs ds = Some (False, cs', ds1) \<Longrightarrow>
     checkExpression env (Expr k cs t v s) ds = Some (False, Expr k cs' t v s, ds1)"
  by simp

lemma type_is_opaque_unique:
  "type_is k1 t \<Longrightarrow> type_is k2 t \<Longrightarrow> \<not> transparent k1 \<Longrightarrow> \<not> transparent k2 \<Longrightarrow> k1 = k2"
  by (induction k1 t rule: type_is.induct) auto

lemma opaque_kinds:
  "\<not> transparent CLOCK" "\<not> transparent INT_kind" "\<not> transparent BOOL"
  by (simp_all add: transparent_def isPrefix_def kind_defs)

lemma isClock_not_isIntegral: "isClock e \<Longrightarrow> \<not> isIntegral e"
proof
  assume c: "isClock e" and i: "isIntegral e"
  from c have "type_is CLOCK (getType e)" by (simp add: isClock_def type_isClock_def)
  moreover from i have "type_is INT_kind (getType e) \<or> type_is BOOL (getType e)"
    by (simp add: isIntegral_def type_isIntegral_def)
  ultimately have "CLOCK = INT_kind \<or> CLOCK = BOOL"
    using type_is_opaque_unique opaque_kinds by blast
  then show False by (simp add: kind_defs)
qed

lemma known_primitives:
  "\<not> type_unknown (createPrimitive INVARIANT :: 'r type_t)"
  "\<not> type_unknown (createPrimitive BOOL :: 'r type_t)"
  "\<not> type_unknown (createPrimitive FORMULA :: 'r type_t)"
  by (simp_all add: type_unknown_def createPrimitive_def kind_defs)

subsection \<open>Comparisons\<close>

lemma checkOperator_relational:
  "k = GE \<or> k = GT \<or> k = LE \<or> k = LT \<Longrightarrow>
     checkOperator env k cs ds = binary cs (\<lambda>e0 e1. Some (Break (type_relational e0 e1) ds))"
  by (auto simp: checkOperator_def kind_defs)

lemma relational_not_FUNCALL:
  "k = GE \<or> k = GT \<or> k = LE \<or> k = LT \<Longrightarrow> k \<noteq> FUNCALL"
  by (auto simp: kind_defs)

lemma primitive_not_GUARD:
  "createPrimitive BOOL \<noteq> (createPrimitive GUARD :: 'r type_t)"
  "createPrimitive INVARIANT \<noteq> (createPrimitive GUARD :: 'r type_t)"
  by (simp_all add: createPrimitive_def kind_defs)

lemma type_relational_cases:
  "type_relational e0 e1 =
     (if isIntegral e0 \<and> isIntegral e1 then createPrimitive BOOL
      else if (isClock e0 \<and> isClock e1) \<or> (isClock e0 \<and> isBound e1)
              \<or> (isClock e1 \<and> isBound e0) \<or> (isDiff e0 \<and> isBound e1)
              \<or> (isDiff e1 \<and> isBound e0)
        then createPrimitive INVARIANT
      else if isNumber e0 \<and> isNumber e1 then createPrimitive BOOL
      else type_null)"
  by (auto simp: type_relational_def isBound_def isInteger_def)

text \<open>
  C2, as the code has it. For \<open><\<close>, \<open><=\<close>, \<open>>\<close> and \<open>>=\<close> on two operands that checked
  successfully: a clock against an integer (on either side) gives the comparison the type
  \<open>invariant\<close>, as a clock against a clock or against any bound does; two integral operands
  give \<open>bool\<close>. The whole case: two integral operands give \<open>bool\<close>; otherwise a clock
  against a clock, and a clock or a difference of clocks against a bound, give
  \<open>invariant\<close>; otherwise two numbers give \<open>bool\<close>; any other operands are a
  \<open>$Type_error\<close>. An accepted comparison never has the type \<open>guard\<close>.
\<close>

theorem relational_clock_integer:
  assumes "k = GE \<or> k = GT \<or> k = LE \<or> k = LT"
    and "checkSubs env cs ds = Some (True, [e0, e1], ds1)"
    and "e0 \<noteq> EmptyExpr" and "e1 \<noteq> EmptyExpr"
  shows "((isClock e0 \<and> isInteger e1) \<or> (isInteger e0 \<and> isClock e1)
          \<or> (isClock e0 \<and> isClock e1) \<or> (isClock e0 \<and> isBound e1) \<or> (isBound e0 \<and> isClock e1)
            \<longrightarrow> checkExpression env (Expr k cs t v s) ds
                  = Some (True, Expr k [e0, e1] (createPrimitive INVARIANT) v s, ds1))
       \<and> (isIntegral e0 \<and> isIntegral e1
            \<longrightarrow> checkExpression env (Expr k cs t v s) ds
                  = Some (True, Expr k [e0, e1] (createPrimitive BOOL) v s, ds1))
       \<and> checkExpression env (Expr k cs t v s) ds
           = Some (if isIntegral e0 \<and> isIntegral e1
                     then (True, Expr k [e0, e1] (createPrimitive BOOL) v s, ds1)
                   else if (isClock e0 \<and> isClock e1) \<or> (isClock e0 \<and> isBound e1)
                           \<or> (isClock e1 \<and> isBound e0) \<or> (isDiff e0 \<and> isBound e1)
                           \<or> (isDiff e1 \<and> isBound e0)
                     then (True, Expr k [e0, e1] (createPrimitive INVARIANT) v s, ds1)
                   else if isNumber e0 \<and> isNumber e1
                     then (True, Expr k [e0, e1] (createPrimitive BOOL) v s, ds1)
                   else (False, Expr k [e0, e1] t v s, handleError ''$Type_error'' ds1))
       \<and> (\<forall>e' ds'. checkExpression env (Expr k cs t v s) ds = Some (True, e', ds')
             \<longrightarrow> getType e' \<noteq> createPrimitive GUARD)"
proof -
  have op: "checkOperator env k [e0, e1] ds1 = Some (Break (type_relational e0 e1) ds1)"
    using assms(1,3,4) by (simp add: checkOperator_relational)
  have ce: "checkExpression env (Expr k cs t v s) ds
              = Some (finish (Expr k [e0, e1] t v s) (Break (type_relational e0 e1) ds1))"
    unfolding checkExpression_operator [OF assms(2) relational_not_FUNCALL [OF assms(1)]] op
    by simp
  have null: "type_unknown (type_null :: 'a type_t)"
    by (simp add: type_unknown_def type_null_def)
  have full: "checkExpression env (Expr k cs t v s) ds
           = Some (if isIntegral e0 \<and> isIntegral e1
                     then (True, Expr k [e0, e1] (createPrimitive BOOL) v s, ds1)
                   else if (isClock e0 \<and> isClock e1) \<or> (isClock e0 \<and> isBound e1)
                           \<or> (isClock e1 \<and> isBound e0) \<or> (isDiff e0 \<and> isBound e1)
                           \<or> (isDiff e1 \<and> isBound e0)
                     then (True, Expr k [e0, e1] (createPrimitive INVARIANT) v s, ds1)
                   else if isNumber e0 \<and> isNumber e1
                     then (True, Expr k [e0, e1] (createPrimitive BOOL) v s, ds1)
                   else (False, Expr k [e0, e1] t v s, handleError ''$Type_error'' ds1))"
    unfolding ce type_relational_cases by (auto simp: known_primitives null)
  have inv: "checkExpression env (Expr k cs t v s) ds
                  = Some (True, Expr k [e0, e1] (createPrimitive INVARIANT) v s, ds1)"
    if "(isClock e0 \<and> isInteger e1) \<or> (isInteger e0 \<and> isClock e1)
          \<or> (isClock e0 \<and> isClock e1) \<or> (isClock e0 \<and> isBound e1) \<or> (isBound e0 \<and> isClock e1)"
    using that unfolding full
    by (auto simp: isBound_def isInteger_def dest: isClock_not_isIntegral)
  have bool: "checkExpression env (Expr k cs t v s) ds
                  = Some (True, Expr k [e0, e1] (createPrimitive BOOL) v s, ds1)"
    if "isIntegral e0 \<and> isIntegral e1"
    using that unfolding full by simp
  have never: "getType e' \<noteq> createPrimitive GUARD"
    if "checkExpression env (Expr k cs t v s) ds = Some (True, e', ds')" for e' ds'
    using that unfolding full by (auto simp: primitive_not_GUARD split: if_splits)
  from inv bool full never show ?thesis by blast
qed


theorem relational_clock_integer_witness:
  "checkExpression env0 (op_expr GE [int_expr 3, x_clock]) []
     = Some (True, typed_expr GE [int_expr 3, x_clock] INVARIANT, [])"
proof -
  have subs: "checkSubs env0 [int_expr 3, x_clock] [] = Some (True, [int_expr 3, x_clock], [])"
    by code_simp
  have ne: "int_expr 3 \<noteq> EmptyExpr" "x_clock \<noteq> EmptyExpr"
    by (simp_all add: int_expr_def x_clock_def id_expr_def)
  have ty: "isInteger (int_expr 3) \<and> isClock x_clock"
    by code_simp
  from relational_clock_integer [of GE, OF _ subs ne, of type_null 0 NoSymbol] ty
  show ?thesis by (simp add: op_expr_def typed_expr_def)
qed

theorem relational_clock_integer_counterexample:
  "checkExpression env0 (op_expr LT [x_clock, int_expr 3]) []
     = Some (True, typed_expr LT [x_clock, int_expr 3] INVARIANT, [])
   \<and> getType (typed_expr LT [x_clock, int_expr 3] INVARIANT) \<noteq> createPrimitive GUARD"
  by code_simp

subsection \<open>Assignments\<close>

lemma checkOperator_ASSPLUS:
  "checkOperator env ASSPLUS cs ds = binary cs (\<lambda>e0 e1. check_ASSPLUS e0 e1 ds)"
  by (simp add: checkOperator_def kind_defs)

lemma checkOperator_ASSIGN:
  "checkOperator env ASSIGN cs ds = binary cs (\<lambda>e0 e1. check_ASSIGN e0 e1 ds)"
  by (simp add: checkOperator_def kind_defs)

lemma checkOperator_compound:
  "isCompoundAssignment k \<Longrightarrow>
     checkOperator env k cs ds = binary cs (\<lambda>e0 e1. check_ASSMINUS e0 e1 ds)"
  unfolding isCompoundAssignment_def
  by (elim disjE) (simp_all add: checkOperator_def kind_defs)

lemma compound_not_FUNCALL: "isCompoundAssignment k \<Longrightarrow> k \<noteq> FUNCALL"
  unfolding isCompoundAssignment_def by (auto simp: kind_defs)

lemma unknown_not_integer_or_cost:
  assumes "type_unknown (getType e)"
  shows "\<not> isInteger e" "\<not> isCost e"
proof -
  obtain k cs r where t: "getType e = Type k cs r" by (cases "getType e")
  with assms have k: "k = UNKNOWN" by (simp add: type_unknown_def)
  have "\<not> transparent UNKNOWN" by (simp add: transparent_def isPrefix_def kind_defs)
  with t k show "\<not> isInteger e" "\<not> isCost e"
    by (cases cs; auto simp: isInteger_def type_isInteger_def isCost_def kind_defs)+
qed

text \<open>
  C10, as the code has it. For an \<open>ASSPLUS\<close> node whose two sub-expressions checked
  successfully and whose left operand has a known type, \<open>checkExpression\<close> returns true and
  attaches the type of the left operand, also when it reports that the operands are not
  (integer or cost, integral) or that the left operand is not a modifiable lvalue. In the
  corresponding cases \<open>ASSIGN\<close> and the other compound assignments return false and leave
  the type of the node as it was. When the type of the left operand is unknown, the test
  after the switch makes \<open>ASSPLUS\<close> return false as well: it reports the operands and
  then \<open>$Type_error\<close>, and leaves the type of the node as it was.
\<close>

theorem ASSPLUS_accepts_with_diagnostic:
  assumes "checkSubs env cs ds = Some (True, [e0, e1], ds1)"
    and "e0 \<noteq> EmptyExpr" and "e1 \<noteq> EmptyExpr"
    and "isModifiableLValue e0 = Some lvalue"
  shows "(\<not> type_unknown (getType e0) \<longrightarrow>
            checkExpression env (Expr ASSPLUS cs t v s) ds
              = Some (True, Expr ASSPLUS [e0, e1] (getType e0) v s,
                      if (\<not> isInteger e0 \<and> \<not> isCost e0) \<or> \<not> isIntegral e1
                      then handleError
                        ''$Increment_operator_can_only_be_used_for_integers_and_cost_variables''
                        ds1
                      else if \<not> lvalue then handleError ''$Left_hand_side_value_expected'' ds1
                      else ds1))
       \<and> (\<not> areAssignmentCompatible (getType e0) (getType e1) False \<or> \<not> lvalue \<longrightarrow>
            checkExpression env (Expr ASSIGN cs t v s) ds
              = Some (False, Expr ASSIGN [e0, e1] t v s,
                      if \<not> areAssignmentCompatible (getType e0) (getType e1) False
                      then handleError ''$Incompatible_types'' ds1
                      else handleError ''$Left_hand_side_value_expected'' ds1))
       \<and> (isCompoundAssignment k \<and> (\<not> isIntegral e0 \<or> \<not> isIntegral e1 \<or> \<not> lvalue) \<longrightarrow>
            checkExpression env (Expr k cs t v s) ds
              = Some (False, Expr k [e0, e1] t v s,
                      if \<not> isIntegral e0 \<or> \<not> isIntegral e1
                      then handleError
                        ''$Non-integer_types_must_use_regular_assignment_operator'' ds1
                      else handleError ''$Left_hand_side_value_expected'' ds1))
       \<and> (type_unknown (getType e0) \<longrightarrow>
            checkExpression env (Expr ASSPLUS cs t v s) ds
              = Some (False, Expr ASSPLUS [e0, e1] t v s,
                      handleError ''$Type_error''
                        (handleError
                           ''$Increment_operator_can_only_be_used_for_integers_and_cost_variables''
                           ds1)))"
proof (intro conjI impI)
  assume known: "\<not> type_unknown (getType e0)"
  have k: "ASSPLUS \<noteq> FUNCALL" by (simp add: kind_defs)
  have op: "checkOperator env ASSPLUS [e0, e1] ds1 = check_ASSPLUS e0 e1 ds1"
    using assms(2,3) by (simp add: checkOperator_ASSPLUS)
  show "checkExpression env (Expr ASSPLUS cs t v s) ds
          = Some (True, Expr ASSPLUS [e0, e1] (getType e0) v s,
                  if (\<not> isInteger e0 \<and> \<not> isCost e0) \<or> \<not> isIntegral e1
                  then handleError
                    ''$Increment_operator_can_only_be_used_for_integers_and_cost_variables'' ds1
                  else if \<not> lvalue then handleError ''$Left_hand_side_value_expected'' ds1
                  else ds1)"
    unfolding checkExpression_operator [OF assms(1) k] op
    using assms(4) known by (simp add: check_ASSPLUS_def)
next
  assume bad: "\<not> areAssignmentCompatible (getType e0) (getType e1) False \<or> \<not> lvalue"
  have k: "ASSIGN \<noteq> FUNCALL" by (simp add: kind_defs)
  have op: "checkOperator env ASSIGN [e0, e1] ds1 = check_ASSIGN e0 e1 ds1"
    using assms(2,3) by (simp add: checkOperator_ASSIGN)
  show "checkExpression env (Expr ASSIGN cs t v s) ds
          = Some (False, Expr ASSIGN [e0, e1] t v s,
                  if \<not> areAssignmentCompatible (getType e0) (getType e1) False
                  then handleError ''$Incompatible_types'' ds1
                  else handleError ''$Left_hand_side_value_expected'' ds1)"
    unfolding checkExpression_operator [OF assms(1) k] op
    using assms(4) bad by (auto simp: check_ASSIGN_def)
next
  assume bad: "isCompoundAssignment k \<and> (\<not> isIntegral e0 \<or> \<not> isIntegral e1 \<or> \<not> lvalue)"
  then have c: "isCompoundAssignment k" by simp
  have op: "checkOperator env k [e0, e1] ds1 = check_ASSMINUS e0 e1 ds1"
    using assms(2,3) by (simp add: checkOperator_compound [OF c])
  show "checkExpression env (Expr k cs t v s) ds
          = Some (False, Expr k [e0, e1] t v s,
                  if \<not> isIntegral e0 \<or> \<not> isIntegral e1
                  then handleError
                    ''$Non-integer_types_must_use_regular_assignment_operator'' ds1
                  else handleError ''$Left_hand_side_value_expected'' ds1)"
    unfolding checkExpression_operator [OF assms(1) compound_not_FUNCALL [OF c]] op
    using assms(4) bad by (auto simp: check_ASSMINUS_def)
next
  assume unknown: "type_unknown (getType e0)"
  have k: "ASSPLUS \<noteq> FUNCALL" by (simp add: kind_defs)
  have op: "checkOperator env ASSPLUS [e0, e1] ds1 = check_ASSPLUS e0 e1 ds1"
    using assms(2,3) by (simp add: checkOperator_ASSPLUS)
  show "checkExpression env (Expr ASSPLUS cs t v s) ds
          = Some (False, Expr ASSPLUS [e0, e1] t v s,
                  handleError ''$Type_error''
                    (handleError
                       ''$Increment_operator_can_only_be_used_for_integers_and_cost_variables''
                       ds1))"
    unfolding checkExpression_operator [OF assms(1) k] op
    using unknown unknown_not_integer_or_cost [OF unknown]
    by (simp add: check_ASSPLUS_def)
qed

theorem ASSPLUS_accepts_with_diagnostic_witness:
  "checkExpression env0 (op_expr ASSPLUS [x_clock, int_expr 1]) []
     = Some (True, typed_expr ASSPLUS [x_clock, int_expr 1] CLOCK,
             [Error ''$Increment_operator_can_only_be_used_for_integers_and_cost_variables''])
   \<and> checkExpression env0 (op_expr ASSIGN [int_expr 3, int_expr 1]) []
     = Some (False, op_expr ASSIGN [int_expr 3, int_expr 1],
             [Error ''$Left_hand_side_value_expected''])
   \<and> checkExpression env0 (op_expr ASSMINUS [x_clock, int_expr 1]) []
     = Some (False, op_expr ASSMINUS [x_clock, int_expr 1],
             [Error ''$Non-integer_types_must_use_regular_assignment_operator''])"
proof -
  have subs: "checkSubs env0 [x_clock, int_expr 1] [] = Some (True, [x_clock, int_expr 1], [])"
    by code_simp
  have ne: "x_clock \<noteq> EmptyExpr" "int_expr 1 \<noteq> EmptyExpr"
    by (simp_all add: int_expr_def x_clock_def id_expr_def)
  have lv: "isModifiableLValue x_clock = Some True" by code_simp
  have facts: "\<not> type_unknown (getType x_clock)" "\<not> isInteger x_clock" "\<not> isCost x_clock"
    "getType x_clock = createPrimitive CLOCK" "\<not> isIntegral x_clock"
    "isCompoundAssignment ASSMINUS"
    by code_simp+
  have subs': "checkSubs env0 [int_expr 3, int_expr 1] []
                 = Some (True, [int_expr 3, int_expr 1], [])"
    by code_simp
  have ne': "int_expr 3 \<noteq> EmptyExpr" by (simp add: int_expr_def)
  have lv': "isModifiableLValue (int_expr 3) = Some False" by code_simp
  have compat: "areAssignmentCompatible (getType (int_expr 3)) (getType (int_expr 1)) False"
    by code_simp
  from ASSPLUS_accepts_with_diagnostic [OF subs ne lv, of type_null 0 NoSymbol ASSMINUS]
       ASSPLUS_accepts_with_diagnostic [OF subs' ne' ne(2) lv', of type_null 0 NoSymbol ASSMINUS]
       facts compat
  show ?thesis
    by (simp add: op_expr_def typed_expr_def handleError_def)
qed

theorem ASSPLUS_unknown_left_counterexample:
  "checkSubs env0 [id_expr ''y'' type_null, int_expr 1] []
     = Some (True, [id_expr ''y'' type_null, int_expr 1], [])
   \<and> checkExpression env0 (op_expr ASSPLUS [id_expr ''y'' type_null, int_expr 1]) []
     = Some (False, op_expr ASSPLUS [id_expr ''y'' type_null, int_expr 1],
             [Error ''$Increment_operator_can_only_be_used_for_integers_and_cost_variables'',
              Error ''$Type_error''])"
  by code_simp

subsection \<open>Function calls\<close>

lemma checkParameters_True:
  "checkParameters ps args r ds = Some (True, ds') \<Longrightarrow>
     r \<and> length ps \<le> length args
     \<and> (\<forall>i < length ps. isParameterCompatible (ps ! i) (args ! i) = Some True)"
proof (induction ps args r ds rule: checkParameters.induct)
  case (1 args result ds)
  then show ?case by simp
next
  case (2 parameter ps result ds)
  then show ?case by simp
next
  case (3 parameter ps argument args result ds)
  from "3.prems" obtain c ds1 where
    c: "checkParameterCompatible parameter argument ds = Some (c, ds1)" and
    r: "checkParameters ps args (result \<and> c) ds1 = Some (True, ds')"
    by (auto split: option.splits)
  from "3.IH" [OF c refl r] have
    rc: "result \<and> c" and len: "length ps \<le> length args" and
    all: "\<forall>i < length ps. isParameterCompatible (ps ! i) (args ! i) = Some True"
    by simp_all
  from c rc have "isParameterCompatible parameter argument = Some True"
    by (auto simp: checkParameterCompatible_def split: option.splits if_splits)
  with rc len all show ?case by (auto simp: nth_Cons' less_Suc_eq_0_disj)
qed

lemma declared_parameter:
  "i < type_size ft - 1 \<Longrightarrow> map snd (tl (type_children ft)) ! i = type_get ft (i + 1)"
  by (auto simp: type_size_def type_get_def nth_tl)

text \<open>
  What the \<open>FUNCALL\<close> case ensures on its own: an accepted call has at least as many
  arguments as the function type declares parameters, each of the first of them is
  parameter-compatible with the parameter at its position, and the type of the call node
  is the one it had before the check.
\<close>

lemma FUNCALL_checked:
  assumes "checkExpression env (Expr FUNCALL cs t v s) ds = Some (True, e', ds')"
  shows "\<exists>f args. subs e' = f # args \<and> f \<noteq> EmptyExpr
           \<and> type_size (getType f) - 1 \<le> length args
           \<and> (\<forall>i < type_size (getType f) - 1.
                 isParameterCompatible (type_get (getType f) (i + 1)) (args ! i) = Some True)
           \<and> getType e' = t"
proof -
  from assms obtain ok cs1 ds1 where
    subs: "checkSubs env cs ds = Some (ok, cs1, ds1)"
    by (auto split: option.splits)
  with assms have ok: "ok" by (auto split: if_splits)
  from assms subs ok obtain f0 args where cs1: "cs1 = f0 # args"
    by (cases cs1) auto
  from assms subs ok cs1 obtain okf f ds2 where
    f: "checkExpression env f0 ds1 = Some (okf, f, ds2)"
    by (auto split: option.splits)
  from assms subs ok cs1 f have
    ne: "f \<noteq> EmptyExpr" and sz: "type_size (getType f) \<noteq> 0" and
    ps: "checkParameters (map snd (tl (type_children (getType f)))) args True ds2
           = Some (True, ds')" and
    e': "e' = Expr FUNCALL (f # args) t v s"
    by (auto split: option.splits if_splits)
  from checkParameters_True [OF ps] have
    len: "type_size (getType f) - 1 \<le> length args" and
    all: "\<forall>i < type_size (getType f) - 1.
            isParameterCompatible (map snd (tl (type_children (getType f))) ! i) (args ! i)
              = Some True"
    by (simp_all add: type_size_def)
  from all have "\<forall>i < type_size (getType f) - 1.
            isParameterCompatible (type_get (getType f) (i + 1)) (args ! i) = Some True"
    by (simp add: declared_parameter)
  with e' ne len show ?thesis by simp
qed





subsection \<open>Simulation queries\<close>

lemma checkOperator_SIMULATE:
  "k = SIMULATE \<or> k = SIMULATEREACH \<Longrightarrow>
     checkOperator env k cs ds = check_SIMULATE env k cs ds"
  by (auto simp: checkOperator_def kind_defs)

lemma SIMULATE_not_FUNCALL: "k = SIMULATE \<or> k = SIMULATEREACH \<Longrightarrow> k \<noteq> FUNCALL"
  by (auto simp: kind_defs)

lemma checkNrOfRuns_pass:
  "fst (checkNrOfRuns env e ds0) \<Longrightarrow> checkNrOfRuns env e ds = (True, ds)"
  by (simp add: checkNrOfRuns_def split: if_splits)

lemma checkBoundTypeOrBoundedExpr_pass:
  "fst (checkBoundTypeOrBoundedExpr e ds0) \<Longrightarrow> checkBoundTypeOrBoundedExpr e ds = (True, ds)"
  by (simp add: checkBoundTypeOrBoundedExpr_def split: if_splits)

lemma checkBound_pass:
  "fst (checkBound env e ds0) \<Longrightarrow> checkBound env e ds = (True, ds)"
  by (simp add: checkBound_def split: if_splits)

lemma checkPredicate_pass:
  "fst (checkPredicate env e ds0) \<Longrightarrow> checkPredicate env e ds = (True, ds)"
  by (simp add: checkPredicate_def split: if_splits)

lemma checkMonitoredExpr_pass:
  "fst (checkMonitoredExpr env e ds0) \<Longrightarrow> checkMonitoredExpr env e ds = (True, ds)"
  by (simp add: checkMonitoredExpr_def split: if_splits)

lemma checkMonitoredExprs_pass:
  "\<forall>m \<in> set ms. m \<noteq> EmptyExpr \<and> fst (checkMonitoredExpr env m ds0) \<Longrightarrow>
     checkMonitoredExprs env ms ds = Some (True, ds)"
  by (induction ms) (auto simp: checkMonitoredExpr_pass)

lemma ternary_cons:
  "cs = e0 # e1 # e2 # es \<Longrightarrow> e0 \<noteq> EmptyExpr \<Longrightarrow> e1 \<noteq> EmptyExpr \<Longrightarrow> e2 \<noteq> EmptyExpr \<Longrightarrow>
     ternary cs f = f e0 e1 e2"
  by simp

lemma check_SIMULATE_invalid_run_count:
  assumes "cs = e0 # e1 # e2 # es"
    and "e0 \<noteq> EmptyExpr" and "e1 \<noteq> EmptyExpr" and "e2 \<noteq> EmptyExpr"
    and "checkNrOfRuns env e0 ds = (True, ds)" and "getValue e0 \<le> 0"
  shows "check_SIMULATE env k cs ds
           = Some (Return False
               (snd (checkBound env e2
                  (snd (checkBoundTypeOrBoundedExpr e1
                     (handleError ''$Invalid_run_count'' ds))))))"
  unfolding check_SIMULATE_def ternary_cons [OF assms(1-4)]
  using assms(5,6) by (simp split: prod.splits)

lemma check_SIMULATE_pass:
  assumes "cs = e0 # e1 # e2 # es"
    and "e0 \<noteq> EmptyExpr" and "e1 \<noteq> EmptyExpr" and "e2 \<noteq> EmptyExpr"
    and "checkNrOfRuns env e0 ds = (True, ds)" and "0 < getValue e0"
    and "checkBoundTypeOrBoundedExpr e1 ds = (True, ds)"
    and "checkBound env e2 ds = (True, ds)"
    and "k = SIMULATEREACH \<longrightarrow>
           cs ! (length cs - 2) \<noteq> EmptyExpr \<and> cs ! (length cs - 2 + 1) \<noteq> EmptyExpr
           \<and> checkPredicate env (cs ! (length cs - 2)) ds = (True, ds)
           \<and> checkNrOfRuns env (cs ! (length cs - 2 + 1)) ds = (True, ds)"
    and "checkMonitoredExprs env
           (take ((if k = SIMULATEREACH then length cs - 2 else length cs) - 3) (drop 3 cs)) ds
         = Some (True, ds)"
  shows "check_SIMULATE env k cs ds = Some (Break (createPrimitive FORMULA) ds)"
  unfolding check_SIMULATE_def ternary_cons [OF assms(1-4)]
  using assms(5-10) by (cases "k = SIMULATEREACH") (simp_all add: Let_def)

text \<open>
  C7, as the code has it. For a \<open>SIMULATE\<close> or \<open>SIMULATEREACH\<close> query whose sub-expressions
  all checked successfully and whose number of runs is a compile-time computable constant
  integer: if that number is at most 0, \<open>checkExpression\<close> reports \<open>$Invalid_run_count\<close>
  (before what the checks of the bound type and of the bound report) and returns false;
  if it is positive and the remaining operands pass their shape checks, the query is
  accepted, with the type \<open>formula\<close> and nothing reported.
\<close>

theorem SIMULATE_run_count:
  assumes "k = SIMULATE \<or> k = SIMULATEREACH"
    and "checkSubs env cs ds = Some (True, e0 # e1 # e2 # es, ds1)"
    and "e0 \<noteq> EmptyExpr" and "e1 \<noteq> EmptyExpr" and "e2 \<noteq> EmptyExpr"
    and "isCompileTimeComputable env e0" and "isConstantInteger e0"
  shows "(getValue e0 \<le> 0 \<longrightarrow>
            checkExpression env (Expr k cs t v s) ds
              = Some (False, Expr k (e0 # e1 # e2 # es) t v s,
                      snd (checkBound env e2
                        (snd (checkBoundTypeOrBoundedExpr e1
                           (handleError ''$Invalid_run_count'' ds1))))))
       \<and> (0 < getValue e0
          \<and> fst (checkBoundTypeOrBoundedExpr e1 []) \<and> fst (checkBound env e2 [])
          \<and> reach_operands_pass env k (e0 # e1 # e2 # es)
          \<and> (\<forall>m \<in> set (monitored k (e0 # e1 # e2 # es)).
                m \<noteq> EmptyExpr \<and> fst (checkMonitoredExpr env m []))
          \<longrightarrow> checkExpression env (Expr k cs t v s) ds
                = Some (True, Expr k (e0 # e1 # e2 # es) (createPrimitive FORMULA) v s, ds1))"
proof (intro conjI impI)
  let ?cs = "e0 # e1 # e2 # es"
  have ce: "checkExpression env (Expr k cs t v s) ds
              = map_option (finish (Expr k ?cs t v s)) (check_SIMULATE env k ?cs ds1)"
    unfolding checkExpression_operator [OF assms(2) SIMULATE_not_FUNCALL [OF assms(1)]]
              checkOperator_SIMULATE [OF assms(1)] ..
  have runs: "checkNrOfRuns env e0 ds1 = (True, ds1)"
    using assms(6,7) by (simp add: checkNrOfRuns_def)
  {
    assume le: "getValue e0 \<le> 0"
    show "checkExpression env (Expr k cs t v s) ds
              = Some (False, Expr k ?cs t v s,
                      snd (checkBound env e2
                        (snd (checkBoundTypeOrBoundedExpr e1
                           (handleError ''$Invalid_run_count'' ds1)))))"
      unfolding ce check_SIMULATE_invalid_run_count [OF refl assms(3-5) runs le] by simp
  }
  {
    assume pass: "0 < getValue e0
          \<and> fst (checkBoundTypeOrBoundedExpr e1 []) \<and> fst (checkBound env e2 [])
          \<and> reach_operands_pass env k ?cs
          \<and> (\<forall>m \<in> set (monitored k ?cs). m \<noteq> EmptyExpr \<and> fst (checkMonitoredExpr env m []))"
    then have pos: "0 < getValue e0" by simp
    from pass have b1: "checkBoundTypeOrBoundedExpr e1 ds1 = (True, ds1)"
      by (intro checkBoundTypeOrBoundedExpr_pass [where ?ds0.0 = "[]"]) simp
    from pass have b2: "checkBound env e2 ds1 = (True, ds1)"
      by (intro checkBound_pass [where ?ds0.0 = "[]"]) simp
    from pass have mon:
      "checkMonitoredExprs env
         (take ((if k = SIMULATEREACH then length ?cs - 2 else length ?cs) - 3) (drop 3 ?cs)) ds1
       = Some (True, ds1)"
      unfolding monitored_def
      by (intro checkMonitoredExprs_pass [where ?ds0.0 = "[]"]) simp
    have idx: "length ?cs - 2 + 1 = length ?cs - 1" by simp
    from pass have reach: "k = SIMULATEREACH \<longrightarrow>
           ?cs ! (length ?cs - 2) \<noteq> EmptyExpr \<and> ?cs ! (length ?cs - 2 + 1) \<noteq> EmptyExpr
           \<and> checkPredicate env (?cs ! (length ?cs - 2)) ds1 = (True, ds1)
           \<and> checkNrOfRuns env (?cs ! (length ?cs - 2 + 1)) ds1 = (True, ds1)"
      unfolding idx reach_operands_pass_def
      by (auto intro: checkPredicate_pass [where ?ds0.0 = "[]"]
                      checkNrOfRuns_pass [where ?ds0.0 = "[]"])
    show "checkExpression env (Expr k cs t v s) ds
                = Some (True, Expr k ?cs (createPrimitive FORMULA) v s, ds1)"
      unfolding ce check_SIMULATE_pass [OF refl assms(3-5) runs pos b1 b2 reach mon]
      by (simp add: known_primitives)
  }
qed

theorem SIMULATE_run_count_witness:
  "checkExpression env0 (op_expr SIMULATE [int_expr 0, int_expr 1, int_expr 10, x_clock]) []
     = Some (False, op_expr SIMULATE [int_expr 0, int_expr 1, int_expr 10, x_clock],
             [Error ''$Invalid_run_count''])
   \<and> checkExpression env0 (op_expr SIMULATE [int_expr 100, int_expr 1, int_expr 10, x_clock]) []
     = Some (True, typed_expr SIMULATE [int_expr 100, int_expr 1, int_expr 10, x_clock] FORMULA,
             [])"
proof -
  have ne: "int_expr 0 \<noteq> EmptyExpr" "int_expr 100 \<noteq> EmptyExpr" "int_expr 1 \<noteq> EmptyExpr"
    "int_expr 10 \<noteq> EmptyExpr"
    by (simp_all add: int_expr_def)
  have subs0: "checkSubs env0 [int_expr 0, int_expr 1, int_expr 10, x_clock] []
                 = Some (True, int_expr 0 # int_expr 1 # int_expr 10 # [x_clock], [])"
    by code_simp
  have subs1: "checkSubs env0 [int_expr 100, int_expr 1, int_expr 10, x_clock] []
                 = Some (True, int_expr 100 # int_expr 1 # int_expr 10 # [x_clock], [])"
    by code_simp
  have runs: "isCompileTimeComputable env0 (int_expr 0)" "isConstantInteger (int_expr 0)"
    "isCompileTimeComputable env0 (int_expr 100)" "isConstantInteger (int_expr 100)"
    by code_simp+
  have vals: "getValue (int_expr 0) \<le> 0" "0 < getValue (int_expr 100)"
    by (simp_all add: int_expr_def)
  have shape: "fst (checkBoundTypeOrBoundedExpr (int_expr 1) [])"
    "fst (checkBound env0 (int_expr 10) [])"
    "reach_operands_pass env0 SIMULATE (int_expr 100 # int_expr 1 # int_expr 10 # [x_clock])"
    "\<forall>m \<in> set (monitored SIMULATE (int_expr 100 # int_expr 1 # int_expr 10 # [x_clock])).
        m \<noteq> EmptyExpr \<and> fst (checkMonitoredExpr env0 m [])"
    by code_simp+
  have diag: "snd (checkBound env0 (int_expr 10)
                (snd (checkBoundTypeOrBoundedExpr (int_expr 1)
                   (handleError ''$Invalid_run_count'' []))))
              = [Error ''$Invalid_run_count'']"
    by code_simp
  from SIMULATE_run_count [of SIMULATE, OF _ subs0 ne(1,3,4) runs(1,2), of type_null 0 NoSymbol]
       SIMULATE_run_count [of SIMULATE, OF _ subs1 ne(2,3,4) runs(3,4), of type_null 0 NoSymbol]
       vals shape diag
  show ?thesis by (simp add: op_expr_def typed_expr_def)
qed

theorem SIMULATE_failed_operand_counterexample:
  "isCompileTimeComputable env0 (int_expr 0) \<and> isConstantInteger (int_expr 0)
   \<and> getValue (int_expr 0) \<le> 0
   \<and> checkExpression env0
        (op_expr SIMULATE [int_expr 0, int_expr 1, int_expr 10, op_expr PLUS [a_chan, a_chan]]) []
     = Some (False,
             op_expr SIMULATE [int_expr 0, int_expr 1, int_expr 10, op_expr PLUS [a_chan, a_chan]],
             [Error ''$Type_error''])"
  by code_simp

section \<open>Rate decomposition\<close>

lemma AND_not_EQ [simp]: "AND \<noteq> EQ" "EQ \<noteq> AND" "FORALL \<noteq> EQ" "FORALL \<noteq> AND"
  "EQ \<noteq> FORALL" "AND \<noteq> FORALL"
  by (simp_all add: kind_defs)

lemma isInvariantWR_I: "\<not> isInvariant e \<Longrightarrow> type_is INVARIANT_WR (getType e) \<Longrightarrow> isInvariantWR e"
  by (simp add: isInvariantWR_def)

lemma cost_rate_equation_kind: "cost_rate_equation e = Some rhs \<Longrightarrow> getKind e = EQ"
  by (simp add: cost_rate_equation_def split: if_splits)





lemma RateDecomposer_init_fields:
  "costRate RateDecomposer_init = EmptyExpr"
  "invariant RateDecomposer_init = createConstant 1"
  "hasStrictInvariant RateDecomposer_init = False"
  "hasClockRates RateDecomposer_init = False"
  "countCostRates RateDecomposer_init = 0"
  by (simp_all add: RateDecomposer_init_def)





lemma costRateEquations_rate_equation:
  assumes "rate_equation (Expr k cs t v s)"
  shows "\<exists>d'. decompose (Expr k cs t v s) inforall d = Some d'
           \<and> countCostRates d' = countCostRates d + costRateEquations (Expr k cs t v s)"
proof -
  let ?e = "Expr k cs t v s"
  from assms have k: "k = EQ" and ni: "\<not> isInvariant ?e" and wr: "isInvariantWR ?e"
    by (auto simp: rate_equation_def)
  from assms obtain l r where cs: "cs = [l, r]"
    by (auto simp: rate_equation_def split: list.splits)
  from assms cs have ne: "l \<noteq> EmptyExpr" "r \<noteq> EmptyExpr"
    and x: "(type_getKind (getType l) = RATE) \<noteq> (type_getKind (getType r) = RATE)"
    by (auto simp: rate_equation_def)
  define x where "x = (if type_getKind (getType l) = RATE then l else r)"
  define y where "y = (if type_getKind (getType l) = RATE then r else l)"
  from assms cs obtain c where xk: "getKind x = RATE" and xs: "subs x = [c]"
    and c: "c \<noteq> EmptyExpr" "costRateEquations c = 0" and y0: "costRateEquations y = 0"
    by (auto simp: rate_equation_def x_def y_def Let_def split: list.splits)
  have xt: "type_getKind (getType x) = RATE" and yt: "type_getKind (getType y) \<noteq> RATE"
    using x by (auto simp: x_def y_def)
  have x0: "costRateEquations x = 0"
    using xk xs c by (cases x) (simp_all add: cost_rate_equation_def)
  have sum: "costRateEquations l + costRateEquations r = 0"
    using x0 y0 by (auto simp: x_def y_def split: if_splits)
  have roc: "rate_of_cost x = isCost c" "\<not> rate_of_cost y"
    using xk xt xs c yt by (simp_all add: rate_of_cost_def)
  have cre: "(cost_rate_equation ?e \<noteq> None) = isCost c"
    using k ni wr cs ne roc xt yt
    by (auto simp: cost_rate_equation_def x_def y_def split: if_splits)
  have dec: "decompose ?e inforall d
               = (if isCost c
                  then Some (d\<lparr> costRate := y, countCostRates := countCostRates d + 1 \<rparr>)
                  else Some (d\<lparr> hasClockRates := True,
                                 invariant := (if \<not> inforall
                                               then conjoin (invariant d) ?e INVARIANT_WR
                                               else invariant d) \<rparr>))"
    using k ni wr cs ne x xs c by (auto simp: x_def y_def)
  show ?thesis
    unfolding dec using cre sum cs by simp
qed

lemma decompose_decomposable:
  "decomposable e \<Longrightarrow>
     \<exists>d'. decompose e inforall d = Some d'
          \<and> countCostRates d' = countCostRates d + costRateEquations e"
proof (induction e arbitrary: d inforall)
  case EmptyExpr
  then show ?case by simp
next
  case (Expr k cs t v s)
  let ?e = "Expr k cs t v s"
  show ?case
  proof (cases "isInvariant ?e")
    case True
    with Expr.prems have "costRateEquations ?e = 0" by simp
    with True show ?thesis by (simp add: isInvariantWR_def del: costRateEquations.simps)
  next
    case ni: False
    with Expr.prems have wrt: "type_is INVARIANT_WR t" by (simp split: if_splits)
    then have wr: "isInvariantWR ?e" by (simp add: isInvariantWR_def)
    have no_eq: "k \<noteq> EQ \<Longrightarrow> cost_rate_equation ?e = None"
      by (simp add: cost_rate_equation_def)
    consider (conj) "k = AND" | (eq) "k = EQ" | (all) "k = FORALL"
      using Expr.prems ni wrt by (auto split: if_splits)
    then show ?thesis
    proof cases
      case conj
      with Expr.prems ni wrt obtain a b where cs: "cs = [a, b]"
        and a: "decomposable a" and b: "decomposable b"
        by (auto split: list.splits)
      from Expr.IH [of a, OF _ a, of inforall d] cs obtain d1 where
        d1: "decompose a inforall d = Some d1"
            "countCostRates d1 = countCostRates d + costRateEquations a"
        by auto
      from Expr.IH [of b, OF _ b, of inforall d1] cs obtain d2 where
        d2: "decompose b inforall d1 = Some d2"
            "countCostRates d2 = countCostRates d1 + costRateEquations b"
        by auto
      from conj ni wr cs d1 d2 no_eq show ?thesis by simp
    next
      case eq
      with Expr.prems ni wrt have "rate_equation ?e" by simp
      from costRateEquations_rate_equation [OF this] show ?thesis .
    next
      case all
      with Expr.prems ni wrt obtain x body where cs: "cs = [x, body]"
        and x: "costRateEquations x = 0" and body: "decomposable body"
        by (auto split: list.splits)
      from Expr.IH [of body, OF _ body, of True d] cs obtain d1 where
        d1: "decompose body True d = Some d1"
            "countCostRates d1 = countCostRates d + costRateEquations body"
        by auto
      from all ni wr cs d1 x no_eq show ?thesis by simp
    qed
  qed
qed

lemma decomposable_isInvariantWR: "decomposable e \<Longrightarrow> isInvariantWR e"
  by (cases e) (auto simp: isInvariantWR_def split: if_splits)

text \<open>
  The invariants of the form that \<open>decompose\<close> is written for (a conjunction of pure
  invariants, rate equations and quantified invariants of this form): for a state with
  such an invariant, checked and side-effect free, \<open>visitState\<close> reports
  \<open>$Only_one_cost_rate_is_allowed\<close> when the invariant contains more than one cost-rate
  equation, and does not report it when the invariant contains at most one. The only
  other diagnostic it may add for the invariant is the warning \<open>$Strict_invariant\<close>.
\<close>

theorem visitState_only_one_cost_rate:
  assumes "state_invariant state \<noteq> EmptyExpr"
    and "checkExpression env (state_invariant state) (diagnostics sys) = Some (True, e, ds)"
    and "decomposable e"
    and "\<not> changesAnyVariable env e"
  shows "\<exists>state' sys' w.
           visitState_invariant env state sys = Some (state', sys')
           \<and> visitState env state sys = visitState_exponentialRate env state' sys'
           \<and> diagnostics sys'
               = (if 1 < costRateEquations e
                  then handleError ''$Only_one_cost_rate_is_allowed'' ds else ds) @ w
           \<and> (w = [] \<or> w = [Warning ''$Strict_invariant''])"
proof -
  from decompose_decomposable [OF assms(3), of False RateDecomposer_init]
  obtain d' where d': "decompose e False RateDecomposer_init = Some d'"
    and count: "countCostRates d' = costRateEquations e"
    by (auto simp: RateDecomposer_init_fields)
  have wr: "isInvariantWR e" by (rule decomposable_isInvariantWR [OF assms(3)])
  let ?ds1 = "if 1 < costRateEquations e
              then handleError ''$Only_one_cost_rate_is_allowed'' ds else ds"
  let ?w = "if hasStrictInvariant d' \<and> ENABLE_TIGA env
            then [Warning ''$Strict_invariant''] else []"
  let ?state' = "state\<lparr> state_invariant := invariant d', state_costRate := costRate d' \<rparr>"
  let ?sys' = "sys\<lparr> diagnostics := ?ds1 @ ?w,
                     stopWatch := (hasClockRates d' \<or> stopWatch sys),
                     strictInvariant := (hasStrictInvariant d' \<or> strictInvariant sys) \<rparr>"
  have first: "visitState_invariant env state sys = Some (?state', ?sys')"
    unfolding visitState_invariant_def
    using assms(1,2,4) wr d' count
    by (simp add: Let_def handleWarning_def)
  then have "visitState env state sys = visitState_exponentialRate env ?state' ?sys'"
    by (simp add: visitState_def)
  with first show ?thesis by (intro exI [of _ ?state'] exI [of _ ?sys'] exI [of _ ?w]) simp
qed

theorem visitState_scenario_3:
  "visitState env0 (state_with scenario_3) sys0
     = Some (\<lparr> state_invariant = createConstant 1, state_costRate = int_expr 3,
                state_exponentialRate = EmptyExpr \<rparr>,
             \<lparr> diagnostics = [Error ''$Only_one_cost_rate_is_allowed''], stopWatch = False,
               strictInvariant = False \<rparr>)
   \<and> costRateEquations scenario_3_checked = 2"
proof -
  have ne: "state_invariant (state_with scenario_3) \<noteq> EmptyExpr"
    by (simp add: state_with_def scenario_3_def op_expr_def)
  have chk: "checkExpression env0 (state_invariant (state_with scenario_3)) (diagnostics sys0)
             = Some (True, scenario_3_checked, [])"
    by code_simp
  have shape: "decomposable scenario_3_checked" by code_simp
  have pure: "\<not> changesAnyVariable env0 scenario_3_checked" by (simp add: env0_def)
  have n: "costRateEquations scenario_3_checked = 2" by code_simp
  have v: "visitState env0 (state_with scenario_3) sys0
     = Some (\<lparr> state_invariant = createConstant 1, state_costRate = int_expr 3,
                state_exponentialRate = EmptyExpr \<rparr>,
             \<lparr> diagnostics = [Error ''$Only_one_cost_rate_is_allowed''], stopWatch = False,
               strictInvariant = False \<rparr>)"
    by code_simp
  from visitState_only_one_cost_rate [OF ne chk shape pure] n v show ?thesis by simp
qed

text \<open>
  C4. An invariant with more than one cost-rate equation is to be reported with
  \<open>$Only_one_cost_rate_is_allowed\<close>. The invariant \<open>(c' == 2 || b) && (c' == 3 || b)\<close>
  has two. \<open>checkExpression\<close> accepts it and gives it the type of an invariant with
  rates (the \<open>OR\<close> case: an integral operand and an invariant with rates), it changes no
  variable, and \<open>visitState\<close> hands it to \<open>decompose\<close>. There the disjunction is
  neither an invariant, a conjunction nor an equation, and the last branch fails its
  assertion \<open>expr.getKind() == FORALL\<close>: the visit stops (\<open>None\<close>) and the error is not
  reported.
\<close>

theorem visitState_rates_under_or:
  "checkExpression env0 rates_under_or [] = Some (True, rates_under_or_checked, [])
   \<and> isInvariantWR rates_under_or_checked
   \<and> changesAnyVariable env0 rates_under_or_checked = False
   \<and> costRateEquations rates_under_or_checked = 2
   \<and> decompose rates_under_or_checked False RateDecomposer_init = None
   \<and> visitState env0 (state_with rates_under_or) sys0 = None"
  by code_simp


section \<open>Record initialisers\<close>

text \<open>Every call only adds to the diagnostics.\<close>

lemma diagnostics_kept:
  "checkInitialiser (type :: 'r type_t) init ds = Some (e, ds') \<Longrightarrow> \<exists>new. ds' = ds @ new"
  "array_loop (subtype :: 'r type_t) inita ia resulta dsa = Some (ra, dsa')
     \<Longrightarrow> \<exists>new. dsa' = dsa @ new"
  "record_loop (typer :: 'r type_t) initr ir current resultr dsr = Some (rr, dsr')
     \<Longrightarrow> \<exists>new. dsr' = dsr @ new"
proof (induction type init ds and subtype inita ia resulta dsa
         and typer initr ir current resultr dsr
       arbitrary: e ds' and ra dsa' and rr dsr'
       rule: checkInitialiser_array_loop_record_loop.induct)
  case (1 type init ds)
  note eq = "1.prems" [unfolded checkInitialiser.simps [of type init ds]]
  consider (same) "ds' = ds"
    | (invalid) "ds' = handleError ''$Invalid_initialiser'' ds"
    | (arr) result where "init \<noteq> EmptyExpr"
        "\<not> areAssignmentCompatible type (getType init) True"
        "type_isArray type \<and> getKind init = LIST"
        "array_loop (type_getSub type 0) init 0 (replicate (getSize init) EmptyExpr) ds
           = Some (result, ds')"
    | (rec) result ds1 where "init \<noteq> EmptyExpr"
        "\<not> areAssignmentCompatible type (getType init) True"
        "\<not> (type_isArray type \<and> getKind init = LIST)"
        "type_isRecord type \<or> getKind init = LIST" "\<not> \<not> type_isRecord type"
        "record_loop type init 0 0 (replicate (type_getRecordSize type) EmptyExpr) ds
           = Some (result, ds1)" "ds' = incomplete result ds1"
    using eq by (auto split: if_splits option.splits)
  then show ?case
  proof cases
    case same
    then show ?thesis by simp
  next
    case invalid
    then show ?thesis by (simp add: handleError_def)
  next
    case arr
    from "1.IH"(1) [OF arr] show ?thesis .
  next
    case rec
    from "1.IH"(2) [OF rec(1-6)] obtain new where "ds1 = ds @ new" by blast
    with rec(7) show ?thesis by (simp add: incomplete_def handleError_def)
  qed
next
  case (2 subtype init i result ds)
  let ?ds1 = "if type_getLabel (getType init) i \<noteq> []
              then handleError ''$Field_name_not_allowed_in_array_initialiser'' ds else ds"
  note eq = "2.prems" [unfolded array_loop.simps [of subtype init i result ds]]
  consider (finished) "dsa' = ds"
    | (step) r ds2 where "i < type_size (getType init)" "\<not> \<not> i < getSize init"
        "checkInitialiser subtype (subs init ! i) ?ds1 = Some (r, ds2)"
        "array_loop subtype init (i + 1) (result[i := r]) ds2 = Some (ra, dsa')"
    using eq by (auto split: if_splits option.splits)
  then show ?case
  proof cases
    case finished
    then show ?thesis by simp
  next
    case step
    from "2.IH"(1) [OF step(1-3)] obtain n1 where n1: "ds2 = ?ds1 @ n1" by blast
    from "2.IH"(2) [OF step(1-3) refl step(4)] obtain n2 where "dsa' = ds2 @ n2" by blast
    with n1 show ?thesis by (simp add: handleError_def)
  qed
next
  case (3 type init i current result ds)
  let ?label = "type_getLabel (getType init) i"
  let ?c = "if ?label \<noteq> [] then type_findIndexOf type ?label else current"
  note eq = "3.prems" [unfolded record_loop.simps [of type init i current result ds] Let_def]
  consider (finished) "dsr' = ds"
    | (stop) msg where "dsr' = handleError msg ds"
    | (skip) "i < type_size (getType init)" "\<not> \<not> i < getSize init"
        "\<not> (?label \<noteq> [] \<and> ?c = - 1)" "\<not> int (type_getRecordSize type) \<le> ?c" "\<not> ?c < 0"
        "result ! nat ?c \<noteq> EmptyExpr"
        "record_loop type init (i + 1) (?c + 1) result
           (handleError ''$Multiple_initialisers_for_field'' ds) = Some (rr, dsr')"
    | (step) r ds1 where "i < type_size (getType init)" "\<not> \<not> i < getSize init"
        "\<not> (?label \<noteq> [] \<and> ?c = - 1)" "\<not> int (type_getRecordSize type) \<le> ?c" "\<not> ?c < 0"
        "\<not> result ! nat ?c \<noteq> EmptyExpr"
        "checkInitialiser (type_getSub type (nat ?c)) (subs init ! i) ds = Some (r, ds1)"
        "record_loop type init (i + 1) (?c + 1) (result[nat ?c := r]) ds1 = Some (rr, dsr')"
    using eq by (auto split: if_splits option.splits)
  then show ?case
  proof cases
    case finished
    then show ?thesis by simp
  next
    case stop
    then show ?thesis by (simp add: handleError_def)
  next
    case skip
    from "3.IH"(1) [OF skip(1,2) refl refl skip(3-7)]
    show ?thesis by (auto simp: handleError_def)
  next
    case step
    from "3.IH"(2) [OF step(1,2) refl refl step(3-7)] obtain n1 where n1: "ds1 = ds @ n1"
      by blast
    from "3.IH"(3) [OF step(1,2) refl refl step(3-7) refl step(8)]
    obtain n2 where "dsr' = ds1 @ n2" by blast
    with n1 show ?thesis by simp
  qed
qed

lemma index_of_bounds: "- 1 \<le> index_of l xs \<and> index_of l xs < int (length xs)"
  by (induction xs) (auto simp: Let_def)

lemma index_of_nth: "0 \<le> index_of l xs \<Longrightarrow> xs ! nat (index_of l xs) = l"
proof (induction xs)
  case Nil
  then show ?case by simp
next
  case (Cons x xs)
  show ?case
  proof (cases "x = l")
    case True
    then show ?thesis by simp
  next
    case False
    with Cons.prems have r: "index_of l xs \<noteq> - 1" by (auto simp: Let_def split: if_splits)
    with index_of_bounds [of l xs] have nn: "0 \<le> index_of l xs" by arith
    from False r have "index_of l (x # xs) = index_of l xs + 1" by (simp add: Let_def)
    with Cons.IH [OF nn] nn show ?thesis by (simp add: nat_add_distrib)
  qed
qed

lemma findIndexOf_label:
  assumes "0 \<le> type_findIndexOf type l"
  shows "nat (type_findIndexOf type l) < type_getRecordSize type
         \<and> type_getRecordLabel type (nat (type_findIndexOf type l)) = l"
proof -
  let ?ls = "map fst (type_children (type_strip type))"
  from index_of_bounds [of l ?ls] assms
  have lt: "nat (index_of l ?ls) < length (type_children (type_strip type))"
    by (simp add: type_findIndexOf_def)
  from index_of_nth [of l ?ls] assms have "?ls ! nat (index_of l ?ls) = l"
    by (simp add: type_findIndexOf_def)
  with lt show ?thesis
    by (simp add: type_findIndexOf_def type_getRecordSize_def type_getRecordLabel_def
        type_getLabel_def type_size_def)
qed

lemma designates_labelled:
  "type_getLabel (getType init) j \<noteq> []
   \<Longrightarrow> designates type init j f
       = (f < type_getRecordSize type
          \<and> type_getRecordLabel type f = type_getLabel (getType init) j)"
  by (cases j) simp_all

lemma designates_next:
  "type_getLabel (getType init) j = [] \<Longrightarrow> 0 < j \<Longrightarrow> 0 < f
   \<Longrightarrow> designates type init (j - 1) (f - 1) \<Longrightarrow> designates type init j f"
  by (cases j) simp_all

lemma designates_first:
  "type_getLabel (getType init) 0 = [] \<Longrightarrow> designates type init 0 0"
  by simp

text \<open>
  The loop over the entries of a record initialiser: a field of the result that the loop
  has changed holds the checked initialiser of an entry written for that field.
\<close>

lemma record_loop_fields:
  assumes "record_loop type init i current result ds = Some (result', ds')"
    and "length result = type_getRecordSize type"
    and "(i = 0 \<and> current = 0)
         \<or> (0 < i \<and> 0 < current \<and> designates type init (i - 1) (nat current - 1))"
  shows "length result' = type_getRecordSize type
    \<and> (\<forall>f<type_getRecordSize type. result' ! f = result ! f
          \<or> (\<exists>j d1 d2 n1 n2 n3. i \<le> j \<and> j < type_size (getType init) \<and> j < getSize init
                \<and> designates type init j f
                \<and> checkInitialiser (type_getSub type f) (subs init ! j) d1 = Some (result' ! f, d2)
                \<and> d1 = ds @ n1 \<and> d2 = d1 @ n2 \<and> ds' = d2 @ n3))"
  using assms
proof (induction "type_size (getType init) - i" arbitrary: i current result ds)
  case 0
  then have "\<not> i < type_size (getType init)" by simp
  with "0.prems"(1) have "result' = result"
    by (simp add: record_loop.simps [of type init i current result ds])
  with "0.prems"(2) show ?case by simp
next
  case (Suc m)
  let ?n = "type_getRecordSize type"
  let ?label = "type_getLabel (getType init) i"
  let ?c = "if ?label \<noteq> [] then type_findIndexOf type ?label else current"
  from Suc.hyps(2) have lt: "i < type_size (getType init)" by simp
  note eq = Suc.prems(1) [unfolded record_loop.simps [of type init i current result ds] Let_def]
  consider (stop) "result' = result"
    | (skip) "i < getSize init"
        "\<not> (?label \<noteq> [] \<and> ?c = - 1)" "\<not> int ?n \<le> ?c" "\<not> ?c < 0"
        "record_loop type init (i + 1) (?c + 1) result
           (handleError ''$Multiple_initialisers_for_field'' ds) = Some (result', ds')"
    | (step) r ds1 where "i < getSize init"
        "\<not> (?label \<noteq> [] \<and> ?c = - 1)" "\<not> int ?n \<le> ?c" "\<not> ?c < 0"
        "checkInitialiser (type_getSub type (nat ?c)) (subs init ! i) ds = Some (r, ds1)"
        "record_loop type init (i + 1) (?c + 1) (result[nat ?c := r]) ds1 = Some (result', ds')"
    using eq lt by (auto split: if_splits option.splits)
  note branch = this
  have des: "designates type init i (nat ?c)" if nn: "\<not> ?c < 0"
  proof (cases "?label = []")
    case True
    from Suc.prems(3) show ?thesis
    proof
      assume "i = 0 \<and> current = 0"
      with True designates_first [of init type] show ?thesis by simp
    next
      assume "0 < i \<and> 0 < current \<and> designates type init (i - 1) (nat current - 1)"
      with True designates_next [of init i "nat current" type] show ?thesis by simp
    qed
  next
    case False
    with nn findIndexOf_label [of type ?label] show ?thesis
      by (simp add: designates_labelled)
  qed
  from branch show ?case
  proof cases
    case stop
    with Suc.prems(2) show ?thesis by simp
  next
    case skip
    from Suc.hyps(2) have m: "m = type_size (getType init) - (i + 1)" by simp
    from skip(4) des have "0 < i + 1 \<and> 0 < ?c + 1
        \<and> designates type init (i + 1 - 1) (nat (?c + 1) - 1)"
      by (simp add: nat_add_distrib)
    then have inv': "(i + 1 = 0 \<and> ?c + 1 = 0) \<or> (0 < i + 1 \<and> 0 < ?c + 1
        \<and> designates type init (i + 1 - 1) (nat (?c + 1) - 1))" ..
    from Suc.hyps(1) [OF m skip(5) Suc.prems(2) inv']
    have len: "length result' = ?n"
      and ih: "\<And>f. f < ?n \<Longrightarrow> result' ! f = result ! f
          \<or> (\<exists>j d1 d2 n1 n2 n3. i + 1 \<le> j \<and> j < type_size (getType init) \<and> j < getSize init
                \<and> designates type init j f
                \<and> checkInitialiser (type_getSub type f) (subs init ! j) d1 = Some (result' ! f, d2)
                \<and> d1 = handleError ''$Multiple_initialisers_for_field'' ds @ n1
                \<and> d2 = d1 @ n2 \<and> ds' = d2 @ n3)"
      by blast+
    have "result' ! f = result ! f
          \<or> (\<exists>j d1 d2 n1 n2 n3. i \<le> j \<and> j < type_size (getType init) \<and> j < getSize init
                \<and> designates type init j f
                \<and> checkInitialiser (type_getSub type f) (subs init ! j) d1 = Some (result' ! f, d2)
                \<and> d1 = ds @ n1 \<and> d2 = d1 @ n2 \<and> ds' = d2 @ n3)" if f: "f < ?n" for f
      using ih [OF f]
    proof
      assume "result' ! f = result ! f"
      then show ?thesis ..
    next
      assume "\<exists>j d1 d2 n1 n2 n3. i + 1 \<le> j \<and> j < type_size (getType init) \<and> j < getSize init
                \<and> designates type init j f
                \<and> checkInitialiser (type_getSub type f) (subs init ! j) d1 = Some (result' ! f, d2)
                \<and> d1 = handleError ''$Multiple_initialisers_for_field'' ds @ n1
                \<and> d2 = d1 @ n2 \<and> ds' = d2 @ n3"
      then obtain j d1 d2 n1 n2 n3 where j: "i + 1 \<le> j" "j < type_size (getType init)"
          "j < getSize init" "designates type init j f"
          "checkInitialiser (type_getSub type f) (subs init ! j) d1 = Some (result' ! f, d2)"
          "d1 = handleError ''$Multiple_initialisers_for_field'' ds @ n1"
          "d2 = d1 @ n2" "ds' = d2 @ n3"
        by blast
      from j(6) have "d1 = ds @ (Error ''$Multiple_initialisers_for_field'' # n1)"
        by (simp add: handleError_def)
      with j(1-5,7,8) have "i \<le> j \<and> j < type_size (getType init) \<and> j < getSize init
                \<and> designates type init j f
                \<and> checkInitialiser (type_getSub type f) (subs init ! j) d1 = Some (result' ! f, d2)
                \<and> d1 = ds @ (Error ''$Multiple_initialisers_for_field'' # n1)
                \<and> d2 = d1 @ n2 \<and> ds' = d2 @ n3"
        by simp
      then show ?thesis by blast
    qed
    with len show ?thesis by blast
  next
    case step
    from Suc.hyps(2) have m: "m = type_size (getType init) - (i + 1)" by simp
    from step(3,4) Suc.prems(2) have c: "nat ?c < length result" by simp
    then have len1: "length (result[nat ?c := r]) = ?n" using Suc.prems(2) by simp
    from step(4) des have "0 < i + 1 \<and> 0 < ?c + 1
        \<and> designates type init (i + 1 - 1) (nat (?c + 1) - 1)"
      by (simp add: nat_add_distrib)
    then have inv': "(i + 1 = 0 \<and> ?c + 1 = 0) \<or> (0 < i + 1 \<and> 0 < ?c + 1
        \<and> designates type init (i + 1 - 1) (nat (?c + 1) - 1))" ..
    from diagnostics_kept(1) [OF step(5)] obtain n0 where n0: "ds1 = ds @ n0" by blast
    from diagnostics_kept(3) [OF step(6)] obtain n9 where n9: "ds' = ds1 @ n9" by blast
    from Suc.hyps(1) [OF m step(6) len1 inv']
    have len: "length result' = ?n"
      and ih: "\<And>f. f < ?n \<Longrightarrow> result' ! f = result[nat ?c := r] ! f
          \<or> (\<exists>j d1 d2 n1 n2 n3. i + 1 \<le> j \<and> j < type_size (getType init) \<and> j < getSize init
                \<and> designates type init j f
                \<and> checkInitialiser (type_getSub type f) (subs init ! j) d1 = Some (result' ! f, d2)
                \<and> d1 = ds1 @ n1 \<and> d2 = d1 @ n2 \<and> ds' = d2 @ n3)"
      by blast+
    have "result' ! f = result ! f
          \<or> (\<exists>j d1 d2 n1 n2 n3. i \<le> j \<and> j < type_size (getType init) \<and> j < getSize init
                \<and> designates type init j f
                \<and> checkInitialiser (type_getSub type f) (subs init ! j) d1 = Some (result' ! f, d2)
                \<and> d1 = ds @ n1 \<and> d2 = d1 @ n2 \<and> ds' = d2 @ n3)" if f: "f < ?n" for f
      using ih [OF f]
    proof
      assume same: "result' ! f = result[nat ?c := r] ! f"
      show ?thesis
      proof (cases "f = nat ?c")
        case True
        with same c have "result' ! f = r" by simp
        with step(5) True have "checkInitialiser (type_getSub type f) (subs init ! i) ds
            = Some (result' ! f, ds1)"
          by simp
        with lt step(1) des [OF step(4)] True n0 n9
        have "i \<le> i \<and> i < type_size (getType init) \<and> i < getSize init
                \<and> designates type init i f
                \<and> checkInitialiser (type_getSub type f) (subs init ! i) ds = Some (result' ! f, ds1)
                \<and> ds = ds @ [] \<and> ds1 = ds @ n0 \<and> ds' = ds1 @ n9"
          by simp
        then show ?thesis by blast
      next
        case False
        with same have "result' ! f = result ! f" by simp
        then show ?thesis ..
      qed
    next
      assume "\<exists>j d1 d2 n1 n2 n3. i + 1 \<le> j \<and> j < type_size (getType init) \<and> j < getSize init
                \<and> designates type init j f
                \<and> checkInitialiser (type_getSub type f) (subs init ! j) d1 = Some (result' ! f, d2)
                \<and> d1 = ds1 @ n1 \<and> d2 = d1 @ n2 \<and> ds' = d2 @ n3"
      then obtain j d1 d2 n1 n2 n3 where j: "i + 1 \<le> j" "j < type_size (getType init)"
          "j < getSize init" "designates type init j f"
          "checkInitialiser (type_getSub type f) (subs init ! j) d1 = Some (result' ! f, d2)"
          "d1 = ds1 @ n1" "d2 = d1 @ n2" "ds' = d2 @ n3"
        by blast
      from j(6) n0 have "d1 = ds @ (n0 @ n1)" by simp
      with j(1-5,7,8) have "i \<le> j \<and> j < type_size (getType init) \<and> j < getSize init
                \<and> designates type init j f
                \<and> checkInitialiser (type_getSub type f) (subs init ! j) d1 = Some (result' ! f, d2)
                \<and> d1 = ds @ (n0 @ n1) \<and> d2 = d1 @ n2 \<and> ds' = d2 @ n3"
        by simp
      then show ?thesis by blast
    qed
    with len show ?thesis by blast
  qed
qed

lemma record_opaque:
  "\<not> transparent RECORD" "\<not> transparent ARRAY" "\<not> transparent CHANNEL"
  by (simp_all add: transparent_def isPrefix_def kind_defs)

lemma record_is_nothing_else:
  assumes "type_isRecord type"
  shows "\<not> type_isArray type" "\<not> type_isClock type" "\<not> type_isInteger type"
    "\<not> type_isBoolean type" "\<not> type_isIntegral type" "\<not> type_isChannel type"
proof -
  from assms have r: "type_is RECORD type" by (simp add: type_isRecord_def)
  have "k = RECORD" if "type_is k type" "\<not> transparent k" for k
    using type_is_opaque_unique [OF that(1) r that(2) record_opaque(1)] .
  from this [of ARRAY] this [of CLOCK] this [of INT_kind] this [of BOOL] this [of CHANNEL]
  show "\<not> type_isArray type" "\<not> type_isClock type" "\<not> type_isInteger type"
    "\<not> type_isBoolean type" "\<not> type_isIntegral type" "\<not> type_isChannel type"
    using opaque_kinds record_opaque
    by (auto simp: type_isArray_def type_isClock_def type_isInteger_def type_isBoolean_def
        type_isIntegral_def type_isChannel_def kind_defs)
qed

lemma areEquivalent_assignable:
  "areEquivalent l r \<Longrightarrow> areAssignmentCompatible l r init"
  by (simp add: areAssignmentCompatible_def)

lemma checkInitialiser_compatible:
  "init \<noteq> EmptyExpr \<Longrightarrow> areAssignmentCompatible type (getType init) True
   \<Longrightarrow> checkInitialiser type init ds = Some (init, ds)"
  by (simp add: checkInitialiser.simps [of type init ds])

lemma checkInitialiser_record_branch:
  assumes "type_isRecord type" "init \<noteq> EmptyExpr"
    "\<not> areAssignmentCompatible type (getType init) True"
  shows "checkInitialiser type init ds =
     (case record_loop type init 0 0 (replicate (type_getRecordSize type) EmptyExpr) ds of
        None \<Rightarrow> None
      | Some (result, ds') \<Rightarrow> Some (createNary LIST result type, incomplete result ds'))"
  using assms record_is_nothing_else(1) [OF assms(1)]
  by (simp add: checkInitialiser.simps [of type init ds])

lemma isListInitialiser_type:
  assumes "isListInitialiser init"
  shows "type_isRecord (getType init)" "type_strip (getType init) = getType init"
    "type_size (getType init) = getSize init"
    "f < getSize init \<Longrightarrow> type_get (getType init) f = getType (subs init ! f)"
    "f < getSize init \<Longrightarrow> subs init ! f \<noteq> EmptyExpr"
    "init \<noteq> EmptyExpr" "getKind init = LIST"
proof -
  obtain k cs r where t: "getType init = Type k cs r" by (cases "getType init")
  from assms t have k: "k = RECORD" and cs: "map snd cs = map getType (subs init)"
    and ne: "EmptyExpr \<notin> set (subs init)" and l: "getKind init = LIST"
    by (simp_all add: isListInitialiser_def)
  from t k record_opaque(1) show "type_isRecord (getType init)"
    by (cases cs) (auto simp: type_isRecord_def)
  from t k record_opaque(1) show "type_strip (getType init) = getType init"
    by (cases cs) auto
  from cs have len: "length cs = length (subs init)" by (metis length_map)
  with t show "type_size (getType init) = getSize init"
    by (simp add: type_size_def getSize_def)
  show "type_get (getType init) f = getType (subs init ! f)" if "f < getSize init"
  proof -
    from that len have f: "f < length cs" by (simp add: getSize_def)
    then have "snd (cs ! f) = map snd cs ! f" by simp
    also from cs that have "\<dots> = getType (subs init ! f)" by (simp add: getSize_def)
    finally show ?thesis using t f by (simp add: type_get_def type_size_def)
  qed
  show "subs init ! f \<noteq> EmptyExpr" if "f < getSize init"
    using that ne by (metis getSize_def nth_mem)
  from l show "init \<noteq> EmptyExpr" by (auto simp: kind_defs)
  from l show "getKind init = LIST" .
qed

text \<open>
  A list initialiser of the type of the record has an entry for every field, at the place
  of the field.
\<close>

lemma compatible_list:
  assumes rec: "type_isRecord type" and wf: "isListInitialiser init"
    and compat: "areAssignmentCompatible type (getType init) True"
  shows "type_getRecordSize type = getSize init"
    and "f < getSize init \<Longrightarrow> type_getRecordLabel type f = type_getLabel (getType init) f"
    and "f < getSize init
         \<Longrightarrow> areEquivalent (type_getSub type f) (getType (subs init ! f))"
proof -
  note no = record_is_nothing_else [OF rec]
  note lt = isListInitialiser_type [OF wf]
  from compat no have "areEquivalent type (getType init)"
    by (simp add: areAssignmentCompatible_def)
  with no lt(1) rec
  have "type_getRecordSize type = type_getRecordSize (getType init)
      \<and> list_all (\<lambda>i. type_getRecordLabel type i = type_getRecordLabel (getType init) i
                \<and> areEquivalent (type_getSub type i) (type_getSub (getType init) i))
               [0 ..< type_getRecordSize type]"
    by (auto simp: areEquivalent.simps [of type "getType init"])
  then have eq: "type_getRecordSize type = type_getRecordSize (getType init)"
    and all: "list_all (\<lambda>i. type_getRecordLabel type i = type_getRecordLabel (getType init) i
                \<and> areEquivalent (type_getSub type i) (type_getSub (getType init) i))
               [0 ..< type_getRecordSize type]"
    by blast+
  from eq lt(2,3) show n: "type_getRecordSize type = getSize init"
    by (simp add: type_getRecordSize_def)
  have at: "type_getRecordLabel type f = type_getRecordLabel (getType init) f
      \<and> areEquivalent (type_getSub type f) (type_getSub (getType init) f)"
    if "f < getSize init" for f
  proof -
    from that n have "f \<in> set [0 ..< type_getRecordSize type]" by simp
    with all show ?thesis unfolding list_all_iff by blast
  qed
  show "type_getRecordLabel type f = type_getLabel (getType init) f" if "f < getSize init"
    using at [OF that] lt(2) by (simp add: type_getRecordLabel_def)
  show "areEquivalent (type_getSub type f) (getType (subs init ! f))" if "f < getSize init"
  proof -
    from lt(2) lt(4) [OF that] have "type_getSub (getType init) f = getType (subs init ! f)"
      by (simp add: type_getSub_def)
    with at [OF that] show ?thesis by simp
  qed
qed

lemma compatible_designates:
  assumes rec: "type_isRecord type" and wf: "isListInitialiser init"
    and compat: "areAssignmentCompatible type (getType init) True"
  shows "f < getSize init \<Longrightarrow> designates type init f f"
proof (induction f)
  case 0
  with compatible_list [OF assms] show ?case by simp
next
  case (Suc f)
  then have "designates type init f f" by simp
  with Suc.prems compatible_list(1) [OF assms] compatible_list(2) [OF assms, of "Suc f"]
  show ?case by simp
qed

lemma record_loop_returns:
  assumes "type_size (getType init) = getSize init" and "0 \<le> current"
    and "\<And>j t d. j < getSize init \<Longrightarrow> \<exists>r. checkInitialiser t (subs init ! j) d = Some r"
  shows "\<exists>r. record_loop type init i current result ds = Some r"
  using assms(2)
proof (induction "type_size (getType init) - i" arbitrary: i current result ds)
  case 0
  then show ?case by (simp add: record_loop.simps [of type init i current result ds])
next
  case (Suc m)
  let ?label = "type_getLabel (getType init) i"
  let ?c = "if ?label \<noteq> [] then type_findIndexOf type ?label else current"
  from Suc.hyps(2) assms(1) have i: "i < getSize init" "m = type_size (getType init) - (i + 1)"
    by simp_all
  from index_of_bounds [of ?label "map fst (type_children (type_strip type))"] Suc.prems
  have c: "?c = - 1 \<or> 0 \<le> ?c" by (auto simp: type_findIndexOf_def)
  show ?case
  proof (cases "(?label \<noteq> [] \<and> ?c = - 1) \<or> int (type_getRecordSize type) \<le> ?c")
    case True
    with i(1) assms(1) show ?thesis
      by (auto simp: record_loop.simps [of type init i current result ds])
  next
    case False
    with c Suc.prems have nn: "0 \<le> ?c" by auto
    then have nn1: "0 \<le> ?c + 1" by simp
    show ?thesis
    proof (cases "result ! nat ?c \<noteq> EmptyExpr")
      case True
      from Suc.hyps(1) [OF i(2) nn1, of result "handleError ''$Multiple_initialisers_for_field'' ds"]
        False True nn i(1) assms(1)
      show ?thesis
        by (auto simp: record_loop.simps [of type init i current result ds])
    next
      case empty: False
      from assms(3) [OF i(1), of "type_getSub type (nat ?c)" ds]
      obtain r ds1 where
        r: "checkInitialiser (type_getSub type (nat ?c)) (subs init ! i) ds = Some (r, ds1)"
        by auto
      from Suc.hyps(1) [OF i(2) nn1, of "result[nat ?c := r]" ds1]
        False empty nn i(1) assms(1) r
      show ?thesis
        by (auto simp: record_loop.simps [of type init i current result ds])
    qed
  qed
qed

lemma plain_entry_returns:
  assumes "e \<noteq> EmptyExpr" "getKind e \<noteq> LIST" "type_size (getType e) = 0"
  shows "\<exists>r. checkInitialiser t e d = Some r"
  using assms
  by (simp add: checkInitialiser.simps [of t e d]
      record_loop.simps [of t e 0 0 "replicate (type_getRecordSize t) EmptyExpr" d])

text \<open>
  The check of a list initialiser for a record returns when the entries are plain
  expressions: no lists, and of types without subtypes.
\<close>

lemma checkInitialiser_returns:
  assumes rec: "type_isRecord type" and wf: "isListInitialiser init"
    and plain: "\<And>e. e \<in> set (subs init) \<Longrightarrow> getKind e \<noteq> LIST \<and> type_size (getType e) = 0"
  shows "\<exists>r. checkInitialiser type init ds = Some r"
proof (cases "areAssignmentCompatible type (getType init) True")
  case True
  note lt = isListInitialiser_type [OF wf]
  from checkInitialiser_compatible [OF lt(6) True] show ?thesis by simp
next
  case False
  note lt = isListInitialiser_type [OF wf]
  have "\<exists>r. checkInitialiser t (subs init ! j) d = Some r" if j: "j < getSize init" for j t d
  proof -
    from j have "subs init ! j \<in> set (subs init)" by (simp add: getSize_def)
    from plain [OF this] lt(5) [OF j] show ?thesis by (blast intro: plain_entry_returns)
  qed
  from record_loop_returns [OF lt(3) _ this, of 0 type 0
      "replicate (type_getRecordSize type) EmptyExpr" ds]
  obtain r where "record_loop type init 0 0 (replicate (type_getRecordSize type) EmptyExpr) ds
      = Some r" by auto
  with checkInitialiser_record_branch [OF rec lt(6) False, of ds] show ?thesis
    by (cases r) simp
qed

lemma incomplete_cases:
  "incomplete result d = (if EmptyExpr \<in> set result then d @ [Error ''$Incomplete_initialiser''] else d)"
  by (simp add: incomplete_def handleError_def)

text \<open>
  The calls that return. For a record type and a list initialiser typed with the record
  of its entries, when \<open>checkInitialiser\<close> returns and has reported nothing, the
  initialiser it returns is a \<open>LIST\<close> with as many children as the record has fields, and
  child \<open>f\<close> is the checked initialiser of an entry written for field \<open>f\<close>, in whatever
  order the entries were written. When it returns and a field has no entry written for
  it, \<open>$Incomplete_initialiser\<close> is among the errors reported by the call.
\<close>

theorem checkInitialiser_record:
  assumes rec: "type_isRecord type" and wf: "isListInitialiser init"
    and ok: "checkInitialiser type init ds = Some (init', ds')"
  shows "(ds' = ds \<longrightarrow>
            getKind init' = LIST \<and> getSize init' = type_getRecordSize type
            \<and> (\<forall>f<type_getRecordSize type. \<exists>j<getSize init.
                  designates type init j f
                  \<and> checkInitialiser (type_getSub type f) (subs init ! j) ds
                      = Some (subs init' ! f, ds)))
       \<and> ((\<exists>f<type_getRecordSize type. \<forall>j<getSize init. \<not> designates type init j f)
            \<longrightarrow> Error ''$Incomplete_initialiser'' \<in> set (drop (length ds) ds'))"
proof (cases "areAssignmentCompatible type (getType init) True")
  case True
  note lt = isListInitialiser_type [OF wf]
  note cl = compatible_list [OF rec wf True]
  from ok checkInitialiser_compatible [OF lt(6) True, of ds]
  have same: "init' = init" "ds' = ds" by simp_all
  have "designates type init f f
        \<and> checkInitialiser (type_getSub type f) (subs init ! f) ds = Some (subs init ! f, ds)"
    if f: "f < getSize init" for f
    using compatible_designates [OF rec wf True f]
      checkInitialiser_compatible [OF lt(5) [OF f] areEquivalent_assignable [OF cl(3) [OF f]]]
    by simp
  with same cl(1) lt(7) show ?thesis by auto
next
  case False
  let ?n = "type_getRecordSize type"
  note lt = isListInitialiser_type [OF wf]
  from ok checkInitialiser_record_branch [OF rec lt(6) False, of ds]
  obtain result d where loop: "record_loop type init 0 0 (replicate ?n EmptyExpr) ds
        = Some (result, d)"
    and init': "init' = createNary LIST result type" and ds': "ds' = incomplete result d"
    by (auto split: option.splits)
  from diagnostics_kept(3) [OF loop] obtain new where d: "d = ds @ new" by blast
  from record_loop_fields [OF loop] 
  have len: "length result = ?n"
    and fields: "\<And>f. f < ?n \<Longrightarrow> result ! f = EmptyExpr
          \<or> (\<exists>j d1 d2 n1 n2 n3. j < getSize init \<and> designates type init j f
                \<and> checkInitialiser (type_getSub type f) (subs init ! j) d1 = Some (result ! f, d2)
                \<and> d1 = ds @ n1 \<and> d2 = d1 @ n2 \<and> d = d2 @ n3)"
    by (simp, fastforce)
  have accepted: "getKind init' = LIST \<and> getSize init' = ?n
            \<and> (\<forall>f<?n. \<exists>j<getSize init.
                  designates type init j f
                  \<and> checkInitialiser (type_getSub type f) (subs init ! j) ds
                      = Some (subs init' ! f, ds))" if "ds' = ds"
  proof -
    from that ds' d have full: "EmptyExpr \<notin> set result" and dd: "d = ds"
      by (auto simp: incomplete_cases split: if_splits)
    have "\<exists>j<getSize init. designates type init j f
           \<and> checkInitialiser (type_getSub type f) (subs init ! j) ds = Some (result ! f, ds)"
      if f: "f < ?n" for f
    proof -
      from f len full have "result ! f \<noteq> EmptyExpr" by (metis nth_mem)
      with fields [OF f] obtain j d1 d2 n1 n2 n3 where j: "j < getSize init"
          "designates type init j f"
          "checkInitialiser (type_getSub type f) (subs init ! j) d1 = Some (result ! f, d2)"
          "d1 = ds @ n1" "d2 = d1 @ n2" "d = d2 @ n3"
        by blast
      from j(4-6) dd have "d1 = ds" "d2 = ds" by simp_all
      with j(1-3) show ?thesis by blast
    qed
    with init' len show ?thesis by (simp add: createNary_def getSize_def)
  qed
  have missing: "Error ''$Incomplete_initialiser'' \<in> set (drop (length ds) ds')"
    if "\<exists>f<?n. \<forall>j<getSize init. \<not> designates type init j f"
  proof -
    from that obtain f where f: "f < ?n" "\<forall>j<getSize init. \<not> designates type init j f"
      by blast
    with fields [OF f(1)] have "result ! f = EmptyExpr" by blast
    with f(1) len have "EmptyExpr \<in> set result" by (metis nth_mem)
    with ds' d show ?thesis by (simp add: incomplete_cases)
  qed
  from accepted missing show ?thesis by blast
qed

theorem checkInitialiser_record_examples:
  "checkInitialiser S_xy init_y1_x2 [] = Some (createNary LIST [int_expr 2, int_expr 1] S_xy, [])
   \<and> type_getRecordSize S_xy = 2
   \<and> (\<exists>j. j < 2 \<and> designates S_xy init_y1_x2 j 0
          \<and> checkInitialiser (type_getSub S_xy 0) (subs init_y1_x2 ! j) []
              = Some (int_expr 2, []))
   \<and> (\<exists>j. j < 2 \<and> designates S_xy init_y1_x2 j 1
          \<and> checkInitialiser (type_getSub S_xy 1) (subs init_y1_x2 ! j) []
              = Some (int_expr 1, []))
   \<and> checkInitialiser S_xy init_y1 []
       = Some (createNary LIST [EmptyExpr, int_expr 1] S_xy, [Error ''$Incomplete_initialiser''])
   \<and> designates S_xy init_y1 0 0 = False"
proof -
  have rec: "type_isRecord S_xy" by code_simp
  have n: "type_getRecordSize S_xy = 2" by code_simp
  have wf: "isListInitialiser init_y1_x2" "isListInitialiser init_y1" by code_simp+
  have sz: "getSize init_y1_x2 = 2" "getSize init_y1 = 1" by code_simp+
  have ok: "checkInitialiser S_xy init_y1_x2 []
      = Some (createNary LIST [int_expr 2, int_expr 1] S_xy, [])"
    by code_simp
  have bad: "checkInitialiser S_xy init_y1 []
      = Some (createNary LIST [EmptyExpr, int_expr 1] S_xy, [Error ''$Incomplete_initialiser''])"
    by code_simp
  have no: "\<not> designates S_xy init_y1 0 0" by code_simp
  from checkInitialiser_record [OF rec wf(1) ok] n sz
  have fields: "\<forall>f<2. \<exists>j<2. designates S_xy init_y1_x2 j f
          \<and> checkInitialiser (type_getSub S_xy f) (subs init_y1_x2 ! j) []
              = Some ([int_expr 2, int_expr 1] ! f, [])"
    by (simp add: createNary_def)
  from fields [rule_format, of 0] have f0: "\<exists>j. j < 2 \<and> designates S_xy init_y1_x2 j 0
          \<and> checkInitialiser (type_getSub S_xy 0) (subs init_y1_x2 ! j) []
              = Some (int_expr 2, [])"
    by simp
  from fields [rule_format, of 1] have f1: "\<exists>j. j < 2 \<and> designates S_xy init_y1_x2 j 1
          \<and> checkInitialiser (type_getSub S_xy 1) (subs init_y1_x2 ! j) []
              = Some (int_expr 1, [])"
    by simp
  from checkInitialiser_record [OF rec wf(2) bad] n sz no
  have "Error ''$Incomplete_initialiser'' \<in> set [Error ''$Incomplete_initialiser'']"
    by simp
  with f0 f1 show ?thesis using ok bad n no by simp
qed

text \<open>
  C3. A record initialiser is reordered to the declared order of the fields, and a field
  without an entry is reported with \<open>$Incomplete_initialiser\<close>. For
  \<open>struct { int x; int y; } s = { { 1, 2 } }\<close> the field \<open>y\<close> has no entry. The initialiser
  passes the tests of \<open>visitVariable\<close> (\<open>checkExpression\<close> accepts it, it is computable at
  compile time and changes no variable). In \<open>checkInitialiser\<close> its one entry, the list
  \<open>{ 1, 2 }\<close>, is checked against the field \<open>x\<close> of type \<open>int\<close>: the branch for arrays tests
  \<open>type.isArray() && init.getKind() == LIST\<close>, but the branch for records tests
  \<open>type.isRecord() || init.getKind() == LIST\<close> and is entered for the list, where the
  record size of \<open>int\<close> is read. The call stops there (\<open>None\<close>): neither \<open>$Invalid_initialiser\<close>
  for the entry nor \<open>$Incomplete_initialiser\<close> for the field \<open>y\<close> is reported.
\<close>

theorem checkInitialiser_nested_list:
  "type_isRecord S_xy \<and> type_getRecordSize S_xy = 2
   \<and> getKind init_nested = LIST \<and> getSize init_nested = 1
   \<and> designates S_xy init_nested 0 1 = False
   \<and> checkExpression env0 init_nested [] = Some (True, init_nested, [])
   \<and> isCompileTimeComputable env0 init_nested
   \<and> changesAnyVariable env0 init_nested = False
   \<and> checkInitialiser (type_getSub S_xy 0) (subs init_nested ! 0) [] = None
   \<and> checkInitialiser S_xy init_nested [] = None"
  by code_simp

end
